theory Spec2Isabelle
  imports Main
begin

section \<open>Python values, results and exceptions\<close>

text \<open>
  The module \<^verbatim>\<open>pywinauto/findwindows.py\<close> narrows a population of windows down by a
  list of keyword criteria. Two pipelines exist: \<^verbatim>\<open>find_elements\<close> works on
  \<^verbatim>\<open>UIAElementInfo\<close> objects, \<^verbatim>\<open>find_windows\<close> on window handles (Python ints);
  \<^verbatim>\<open>find_window\<close> calls one of them and insists on exactly one result.

  A value passed for \<^verbatim>\<open>parent\<close>, or handed to \<^verbatim>\<open>predicate_func\<close>, is a window handle
  or an element object, depending on the pipeline.
\<close>

datatype 'e py_value = PyInt int | PyElement 'e

text \<open>
  What a pipeline hands back: \<^verbatim>\<open>find_elements\<close> returns \<^verbatim>\<open>UIAElementInfo\<close> objects
  (the abstract type \<open>'e\<close>), \<^verbatim>\<open>find_windows\<close> returns \<^verbatim>\<open>NativeElementInfo(handle)\<close>
  objects.
\<close>

datatype 'e element_info = UIAInfo 'e | NativeElementInfo int

text \<open>
  The exceptions the module can raise. \<^verbatim>\<open>WindowNotFoundError\<close> is raised without
  arguments by \<^verbatim>\<open>find_window\<close> and with a message by the \<^verbatim>\<open>found_index\<close> step;
  \<^verbatim>\<open>WindowAmbiguousError\<close> has a message and the attribute \<^verbatim>\<open>windows\<close>;
  \<^verbatim>\<open>IndexError\<close> comes from list indexing, \<^verbatim>\<open>WinError\<close> from a failed
  \<^verbatim>\<open>GetGUIThreadInfo\<close>, \<^verbatim>\<open>ReError\<close> is \<^verbatim>\<open>re.error\<close> from \<^verbatim>\<open>re.compile\<close>.
\<close>

datatype 'e error =
    WindowNotFoundError "string option"
  | WindowAmbiguousError string "'e element_info list"
  | IndexError
  | WinError
  | ReError

subsection \<open>Python list indexing, slicing and number formatting\<close>

text \<open>\<^verbatim>\<open>xs[i]\<close>: a negative index counts from the end; out of range raises.\<close>

definition py_index :: "'a list \<Rightarrow> int \<Rightarrow> 'e error + 'a" where
  "py_index xs i =
     (if 0 \<le> i
      then (if i < int (length xs) then Inr (xs ! nat i) else Inl IndexError)
      else (if - int (length xs) \<le> i then Inr (xs ! nat (int (length xs) + i))
            else Inl IndexError))"

text \<open>
  \<^verbatim>\<open>xs[start:stop]\<close>: a negative bound has the length added once and is then clipped
  to \<open>0\<close>; a bound beyond the length is clipped to the length; the slice is empty when
  the lower bound is not below the upper one. A slice never raises.
\<close>

definition py_slice :: "'a list \<Rightarrow> int \<Rightarrow> int \<Rightarrow> 'a list" where
  "py_slice xs start stop =
     (let n = int (length xs);
          lo = (if start < 0 then max (start + n) 0 else min start n);
          hi = (if stop < 0 then max (stop + n) 0 else min stop n)
      in take (nat (hi - lo)) (drop (nat lo) xs))"

text \<open>The \<^verbatim>\<open>%d\<close> conversion of an integer.\<close>

fun str_nat :: "nat \<Rightarrow> string" where
  "str_nat n =
     (if n < 10 then [''0123456789'' ! n]
      else str_nat (n div 10) @ [''0123456789'' ! (n mod 10)])"

declare str_nat.simps [simp del]

definition str_int :: "int \<Rightarrow> string" where
  "str_int i = (if i < 0 then CHR ''-'' # str_nat (nat (- i)) else str_nat (nat i))"

section \<open>Criteria and the platform\<close>

text \<open>
  The keyword arguments shared by \<^verbatim>\<open>find_elements\<close>, \<^verbatim>\<open>find_windows\<close> and
  \<^verbatim>\<open>find_window\<close>, each with the default of the signature.
\<close>

record 'e criteria =
  class_name :: "string option"
  class_name_re :: "string option"
  parent :: "'e py_value option"
  process :: "int option"
  title :: "string option"
  title_re :: "string option"
  top_level_only :: bool
  visible_only :: bool
  enabled_only :: bool
  best_match :: "string option"
  handle :: "int option"
  ctrl_index :: "int option"
  found_index :: "int option"
  predicate_func :: "('e py_value \<Rightarrow> bool) option"
  active_only :: bool
  control_id :: "int option"

definition default_criteria :: "'e criteria" where
  "default_criteria =
     \<lparr> class_name = None, class_name_re = None, parent = None, process = None,
       title = None, title_re = None, top_level_only = True, visible_only = True,
       enabled_only = False, best_match = None, handle = None, ctrl_index = None,
       found_index = None, predicate_func = None, active_only = False,
       control_id = None \<rparr>"

text \<open>
  \<^verbatim>\<open>find_window(**kwargs)\<close> receives the dictionary of the keywords its caller wrote:
  the list of those keywords with their values, in the order of the call (a call names
  a keyword at most once). Passing the dictionary on with \<^verbatim>\<open>**kwargs\<close> binds each keyword
  to the parameter of its name and leaves the other parameters at their defaults.
\<close>

datatype 'e keyword =
    Kw_class_name "string option"
  | Kw_class_name_re "string option"
  | Kw_parent "'e py_value option"
  | Kw_process "int option"
  | Kw_title "string option"
  | Kw_title_re "string option"
  | Kw_top_level_only bool
  | Kw_visible_only bool
  | Kw_enabled_only bool
  | Kw_best_match "string option"
  | Kw_handle "int option"
  | Kw_ctrl_index "int option"
  | Kw_found_index "int option"
  | Kw_predicate_func "('e py_value \<Rightarrow> bool) option"
  | Kw_active_only bool
  | Kw_control_id "int option"

fun bind_keyword :: "'e criteria \<Rightarrow> 'e keyword \<Rightarrow> 'e criteria" where
  "bind_keyword c (Kw_class_name v) = c\<lparr>class_name := v\<rparr>"
| "bind_keyword c (Kw_class_name_re v) = c\<lparr>class_name_re := v\<rparr>"
| "bind_keyword c (Kw_parent v) = c\<lparr>parent := v\<rparr>"
| "bind_keyword c (Kw_process v) = c\<lparr>process := v\<rparr>"
| "bind_keyword c (Kw_title v) = c\<lparr>title := v\<rparr>"
| "bind_keyword c (Kw_title_re v) = c\<lparr>title_re := v\<rparr>"
| "bind_keyword c (Kw_top_level_only v) = c\<lparr>top_level_only := v\<rparr>"
| "bind_keyword c (Kw_visible_only v) = c\<lparr>visible_only := v\<rparr>"
| "bind_keyword c (Kw_enabled_only v) = c\<lparr>enabled_only := v\<rparr>"
| "bind_keyword c (Kw_best_match v) = c\<lparr>best_match := v\<rparr>"
| "bind_keyword c (Kw_handle v) = c\<lparr>handle := v\<rparr>"
| "bind_keyword c (Kw_ctrl_index v) = c\<lparr>ctrl_index := v\<rparr>"
| "bind_keyword c (Kw_found_index v) = c\<lparr>found_index := v\<rparr>"
| "bind_keyword c (Kw_predicate_func v) = c\<lparr>predicate_func := v\<rparr>"
| "bind_keyword c (Kw_active_only v) = c\<lparr>active_only := v\<rparr>"
| "bind_keyword c (Kw_control_id v) = c\<lparr>control_id := v\<rparr>"

definition bind_kwargs :: "'e keyword list \<Rightarrow> 'e criteria" where
  "bind_kwargs kwargs = foldl bind_keyword default_criteria kwargs"

text \<open>
  Everything the module imports and calls but does not define is a field of the
  platform: \<^verbatim>\<open>sysinfo\<close>, \<^verbatim>\<open>win32functions\<close>, \<^verbatim>\<open>handleprops\<close>, the properties of
  \<^verbatim>\<open>UIAElementInfo\<close>, \<^verbatim>\<open>controls\<close>, \<^verbatim>\<open>findbestmatch\<close>, \<^verbatim>\<open>re\<close> and \<^verbatim>\<open>six\<close>.
  \<open>'e\<close> is the type of \<^verbatim>\<open>UIAElementInfo\<close> objects (compared with \<^verbatim>\<open>==\<close>), \<open>'w\<close> the
  type of control wrappers, \<open>'rx\<close> the type of compiled patterns.

  \<^item> \<open>EnumWindows\<close> is the sequence of handles the enumeration callback receives.
  \<^item> \<open>GetGUIThreadInfo k\<close> is the answer to the query made when \<open>k\<close> queries have been
    made before: \<open>None\<close> when the call returns 0, else the field \<^verbatim>\<open>hwndActive\<close>.
  \<^item> \<open>WrapHandle\<close> and \<open>WrapElement\<close> give \<open>None\<close> where the source raises
    \<^verbatim>\<open>InvalidWindowHandle\<close> or \<^verbatim>\<open>InvalidWindowElement\<close>.
  \<^item> \<open>re_compile\<close> gives \<open>None\<close> where \<^verbatim>\<open>re.compile\<close> raises; \<open>re_match rx s\<close> says
    whether \<^verbatim>\<open>rx.match(s)\<close> is a match object (truthy) rather than \<^verbatim>\<open>None\<close>.
  \<^item> \<open>find_best_control_matches\<close> is taken as a function that returns a list; an
    exception of its own would pass through the module unchanged.
  \<^item> \<open>text_type\<close> is \<^verbatim>\<open>six.text_type(kwargs)\<close>, the rendering of the dictionary of the
    keywords passed to \<^verbatim>\<open>find_window\<close>.

  The property readers and \<^verbatim>\<open>predicate_func\<close> are taken as total: a call of the module
  sees one snapshot of the windows.
\<close>

record ('e, 'w, 'rx) platform =
  UIA_support :: bool
  EnumWindows :: "int list"
  GetDesktopWindow :: int
  GetGUIThreadInfo :: "nat \<Rightarrow> int option"
  handleprops_parent :: "int \<Rightarrow> int"
  handleprops_children :: "'e py_value \<Rightarrow> int list"
  handleprops_controlid :: "int \<Rightarrow> int"
  handleprops_classname :: "int \<Rightarrow> string"
  handleprops_processid :: "int \<Rightarrow> int"
  handleprops_text :: "int \<Rightarrow> string option"
  handleprops_isvisible :: "int \<Rightarrow> bool"
  handleprops_isenabled :: "int \<Rightarrow> bool"
  UIAElementInfo :: "int option \<Rightarrow> 'e"
  elem_parent :: "'e \<Rightarrow> 'e option"
  descendants :: "'e \<Rightarrow> 'e list"
  controlId :: "'e \<Rightarrow> int"
  elem_handle :: "'e \<Rightarrow> int option"
  className :: "'e \<Rightarrow> string"
  processId :: "'e \<Rightarrow> int"
  windowText :: "'e \<Rightarrow> string option"
  visible :: "'e \<Rightarrow> bool"
  enabled :: "'e \<Rightarrow> bool"
  WrapHandle :: "int \<Rightarrow> 'w option"
  WrapElement :: "'e \<Rightarrow> 'w option"
  wrapper_handle :: "'w \<Rightarrow> int"
  find_best_control_matches :: "string \<Rightarrow> 'w list \<Rightarrow> 'w list"
  re_compile :: "string \<Rightarrow> 'rx option"
  re_match :: "'rx \<Rightarrow> string \<Rightarrow> bool"
  text_type :: "'e keyword list \<Rightarrow> string"

section \<open>The steps shared by both pipelines\<close>

text \<open>
  Truth value of the \<^verbatim>\<open>parent\<close> argument in \<^verbatim>\<open>if parent:\<close>: \<^verbatim>\<open>None\<close> and the integer
  \<open>0\<close> are false, any other integer is true, and an element object is true (an object
  is true unless its class says otherwise).
\<close>

fun truthy :: "'e py_value option \<Rightarrow> bool" where
  "truthy None = False"
| "truthy (Some (PyInt h)) = (h \<noteq> 0)"
| "truthy (Some (PyElement e)) = True"

text \<open>
  The message of the \<^verbatim>\<open>found_index\<close> failure:
  \<^verbatim>\<open>"found_index is specified as %d, but %d window/s found" % (found_index, len(windows))\<close>.
\<close>

definition found_index_message :: "int \<Rightarrow> nat \<Rightarrow> string" where
  "found_index_message i n =
     ''found_index is specified as '' @ str_int i @ '', but '' @ str_int (int n)
       @ '' window/s found''"

text \<open>
  The last step of both pipelines:
  \<^verbatim>\<open>
  if found_index is not None:
      if found_index < len(windows):
          windows = windows[found_index:found_index+1]
      else:
          raise WindowNotFoundError(...)
  \<close>
\<close>

definition select_found_index :: "int option \<Rightarrow> 'a list \<Rightarrow> 'e error + 'a list" where
  "select_found_index fi windows =
     (case fi of
        None \<Rightarrow> Inr windows
      | Some i \<Rightarrow>
          if i < int (length windows) then Inr (py_slice windows i (i + 1))
          else Inl (WindowNotFoundError (Some (found_index_message i (length windows)))))"

text \<open>
  The inner function \<^verbatim>\<open>_title_match\<close>, with the text of the window already read:
  \<^verbatim>\<open>
  if t is not None:
      return title_regex.match(t)
  return False
  \<close>
\<close>

definition title_match :: "('e, 'w, 'rx) platform \<Rightarrow> 'rx \<Rightarrow> string option \<Rightarrow> bool" where
  "title_match env title_regex t =
     (case t of Some s \<Rightarrow> re_match env title_regex s | None \<Rightarrow> False)"

section \<open>The handle pipeline \<^verbatim>\<open>find_windows\<close>\<close>

definition enum_windows :: "('e, 'w, 'rx) platform \<Rightarrow> int list" where
  "enum_windows env = EnumWindows env"

text \<open>
  Acquisition of the population (the list \<^verbatim>\<open>windows\<close> before \<^verbatim>\<open>ctrl_index\<close> is looked
  at): the top-level windows, restricted to those whose parent is \<^verbatim>\<open>parent\<close> when that
  is true; or the children of \<^verbatim>\<open>parent\<close>, the desktop window when \<^verbatim>\<open>parent\<close> is false.
  A handle is equal to \<^verbatim>\<open>parent\<close> only when \<^verbatim>\<open>parent\<close> is that integer.
\<close>

definition initial_windows :: "('e, 'w, 'rx) platform \<Rightarrow> 'e criteria \<Rightarrow> int list" where
  "initial_windows env c =
     (if top_level_only c then
        (if truthy (parent c)
         then filter (\<lambda>win. Some (PyInt (handleprops_parent env win)) = parent c)
                (enum_windows env)
         else enum_windows env)
      else
        handleprops_children env
          (case parent c of
             Some p \<Rightarrow> if truthy (Some p) then p else PyInt (GetDesktopWindow env)
           | None \<Rightarrow> PyInt (GetDesktopWindow env)))"

text \<open>
  The filters of \<^verbatim>\<open>find_windows\<close>, one definition for each statement of the source:
  \<^verbatim>\<open>
  if control_id is not None and windows:
      windows = [win for win in windows if handleprops.controlid(win) == control_id]
  if active_only: ...
  if not windows: return windows
  if class_name is not None:
      windows = [win for win in windows if class_name == handleprops.classname(win)]
  if class_name_re is not None:
      class_name_regex = re.compile(class_name_re)
      windows = [win for win in windows
                 if class_name_regex.match(handleprops.classname(win))]
  if process is not None:
      windows = [win for win in windows if handleprops.processid(win) == process]
  if title is not None:
      windows = [win for win in windows if title == handleprops.text(win)]
  elif title_re is not None:
      title_regex = re.compile(title_re)
      windows = [win for win in windows if _title_match(win)]
  if visible_only:
      windows = [win for win in windows if handleprops.isvisible(win)]
  if enabled_only:
      windows = [win for win in windows if handleprops.isenabled(win)]
  if best_match is not None: ...
  if predicate_func is not None:
      windows = [win for win in windows if predicate_func(win)]
  \<close>
  \<^verbatim>\<open>find_elements\<close> has the same statements on the properties of the elements.
\<close>

definition control_id_windows ::
  "('e, 'w, 'rx) platform \<Rightarrow> 'e criteria \<Rightarrow> int list \<Rightarrow> int list" where
  "control_id_windows env c windows =
     (case control_id c of
        Some cid \<Rightarrow>
          if windows \<noteq> [] then filter (\<lambda>win. handleprops_controlid env win = cid) windows
          else windows
      | None \<Rightarrow> windows)"

text \<open>
  The \<^verbatim>\<open>active_only\<close> step, run when \<^verbatim>\<open>active_only\<close> is true. The second argument and
  the second component of the result count the calls of \<^verbatim>\<open>GetGUIThreadInfo\<close> made so far.
\<close>

definition active_windows ::
  "('e, 'w, 'rx) platform \<Rightarrow> int list \<Rightarrow> nat \<Rightarrow> ('e error + int list) \<times> nat" where
  "active_windows env windows queries =
     (case GetGUIThreadInfo env queries of
        None \<Rightarrow> (Inl WinError, Suc queries)
      | Some hwndActive \<Rightarrow>
          (Inr (if hwndActive \<in> set windows then [hwndActive] else []), Suc queries))"

definition class_name_windows ::
  "('e, 'w, 'rx) platform \<Rightarrow> 'e criteria \<Rightarrow> int list \<Rightarrow> int list" where
  "class_name_windows env c windows =
     (case class_name c of
        Some cn \<Rightarrow> filter (\<lambda>win. cn = handleprops_classname env win) windows
      | None \<Rightarrow> windows)"

definition class_name_re_windows ::
  "('e, 'w, 'rx) platform \<Rightarrow> 'e criteria \<Rightarrow> int list \<Rightarrow> 'e error + int list" where
  "class_name_re_windows env c windows =
     (case class_name_re c of
        Some pat \<Rightarrow>
          (case re_compile env pat of
             None \<Rightarrow> Inl ReError
           | Some class_name_regex \<Rightarrow>
               Inr (filter (\<lambda>win. re_match env class_name_regex (handleprops_classname env win))
                      windows))
      | None \<Rightarrow> Inr windows)"

definition process_windows ::
  "('e, 'w, 'rx) platform \<Rightarrow> 'e criteria \<Rightarrow> int list \<Rightarrow> int list" where
  "process_windows env c windows =
     (case process c of
        Some pid \<Rightarrow> filter (\<lambda>win. handleprops_processid env win = pid) windows
      | None \<Rightarrow> windows)"

definition title_windows ::
  "('e, 'w, 'rx) platform \<Rightarrow> 'e criteria \<Rightarrow> int list \<Rightarrow> 'e error + int list" where
  "title_windows env c windows =
     (case title c of
        Some t \<Rightarrow> Inr (filter (\<lambda>win. Some t = handleprops_text env win) windows)
      | None \<Rightarrow>
          (case title_re c of
             Some pat \<Rightarrow>
               (case re_compile env pat of
                  None \<Rightarrow> Inl ReError
                | Some title_regex \<Rightarrow>
                    Inr (filter (\<lambda>win. title_match env title_regex (handleprops_text env win))
                           windows))
           | None \<Rightarrow> Inr windows))"

definition visible_windows ::
  "('e, 'w, 'rx) platform \<Rightarrow> 'e criteria \<Rightarrow> int list \<Rightarrow> int list" where
  "visible_windows env c windows =
     (if visible_only c then filter (handleprops_isvisible env) windows else windows)"

definition enabled_windows ::
  "('e, 'w, 'rx) platform \<Rightarrow> 'e criteria \<Rightarrow> int list \<Rightarrow> int list" where
  "enabled_windows env c windows =
     (if enabled_only c then filter (handleprops_isenabled env) windows else windows)"

text \<open>
  The \<^verbatim>\<open>best_match\<close> step: wrap every handle that can be wrapped, let the matcher
  choose, and go back to the handles of what it chose.
\<close>

definition best_match_windows ::
  "('e, 'w, 'rx) platform \<Rightarrow> 'e criteria \<Rightarrow> int list \<Rightarrow> int list" where
  "best_match_windows env c windows =
     (case best_match c of
        Some bm \<Rightarrow>
          map (wrapper_handle env)
            (find_best_control_matches env bm (List.map_filter (WrapHandle env) windows))
      | None \<Rightarrow> windows)"

definition predicate_windows :: "'e criteria \<Rightarrow> int list \<Rightarrow> int list" where
  "predicate_windows c windows =
     (case predicate_func c of
        Some f \<Rightarrow> filter (\<lambda>win. f (PyInt win)) windows
      | None \<Rightarrow> windows)"

text \<open>The steps from \<^verbatim>\<open>class_name\<close> to \<^verbatim>\<open>predicate_func\<close>, in the order of the source.\<close>

definition filter_windows ::
  "('e, 'w, 'rx) platform \<Rightarrow> 'e criteria \<Rightarrow> int list \<Rightarrow> 'e error + int list" where
  "filter_windows env c windows =
     (case class_name_re_windows env c (class_name_windows env c windows) of
        Inl err \<Rightarrow> Inl err
      | Inr windows1 \<Rightarrow>
          (case title_windows env c (process_windows env c windows1) of
             Inl err \<Rightarrow> Inl err
           | Inr windows2 \<Rightarrow>
               Inr (predicate_windows c
                      (best_match_windows env c
                         (enabled_windows env c (visible_windows env c windows2))))))"

text \<open>
  Everything after the \<^verbatim>\<open>active_only\<close> step: the early stop on an empty list, the
  filters, \<^verbatim>\<open>found_index\<close>, and the final
  \<^verbatim>\<open>[NativeElementInfo(handle) for handle in windows]\<close>. The early stop returns the
  empty list itself.
\<close>

definition find_windows_rest ::
  "('e, 'w, 'rx) platform \<Rightarrow> 'e criteria \<Rightarrow> int list \<Rightarrow> 'e error + 'e element_info list" where
  "find_windows_rest env c windows =
     (if windows = [] then Inr []
      else
        (case filter_windows env c windows of
           Inl err \<Rightarrow> Inl err
         | Inr filtered \<Rightarrow>
             (case select_found_index (found_index c) filtered of
                Inl err \<Rightarrow> Inl err
              | Inr selected \<Rightarrow> Inr (map NativeElementInfo selected))))"

text \<open>
  The population after the \<^verbatim>\<open>control_id\<close> and \<^verbatim>\<open>active_only\<close> steps, or the
  exception of the latter.
\<close>

definition narrow_windows ::
  "('e, 'w, 'rx) platform \<Rightarrow> 'e criteria \<Rightarrow> nat \<Rightarrow> ('e error + int list) \<times> nat" where
  "narrow_windows env c queries =
     (if active_only c
      then active_windows env (control_id_windows env c (initial_windows env c)) queries
      else (Inr (control_id_windows env c (initial_windows env c)), queries))"

text \<open>
  \<^verbatim>\<open>find_windows\<close>. The result is the value returned or the exception raised, together
  with the number of \<^verbatim>\<open>GetGUIThreadInfo\<close> calls made once it is over.
\<close>

definition find_windows ::
  "('e, 'w, 'rx) platform \<Rightarrow> 'e criteria \<Rightarrow> nat
     \<Rightarrow> ('e error + 'e element_info list) \<times> nat" where
  "find_windows env c queries =
     (case handle c of
        Some h \<Rightarrow> (Inr [NativeElementInfo h], queries)
      | None \<Rightarrow>
          (case (if top_level_only c then None else ctrl_index c) of
             Some i \<Rightarrow>
               (case py_index (initial_windows env c) i of
                  Inl err \<Rightarrow> (Inl err, queries)
                | Inr win \<Rightarrow> (Inr [NativeElementInfo win], queries))
           | None \<Rightarrow>
               (case narrow_windows env c queries of
                  (Inl err, queries') \<Rightarrow> (Inl err, queries')
                | (Inr windows, queries') \<Rightarrow> (find_windows_rest env c windows, queries'))))"

section \<open>The element pipeline \<^verbatim>\<open>find_elements\<close>\<close>

definition enum_elements :: "('e, 'w, 'rx) platform \<Rightarrow> 'e list" where
  "enum_elements env = map (\<lambda>h. UIAElementInfo env (Some h)) (enum_windows env)"

text \<open>
  The variable \<^verbatim>\<open>parent\<close> after
  \<^verbatim>\<open>
  if parent:
      if isinstance(parent, int):
          parent = UIAElementInfo(parent)
  \<close>
  as far as the later tests \<^verbatim>\<open>if parent:\<close> and \<^verbatim>\<open>if not parent:\<close> see it: \<open>Some\<close> of the
  element when it is true, \<open>None\<close> when it is false.
\<close>

fun element_parent :: "('e, 'w, 'rx) platform \<Rightarrow> 'e py_value option \<Rightarrow> 'e option" where
  "element_parent env None = None"
| "element_parent env (Some (PyInt h)) =
     (if h \<noteq> 0 then Some (UIAElementInfo env (Some h)) else None)"
| "element_parent env (Some (PyElement e)) = Some e"

text \<open>
  Acquisition of the population (the list \<^verbatim>\<open>elements\<close> before \<^verbatim>\<open>ctrl_index\<close> is
  looked at): the top-level elements, restricted to those whose \<^verbatim>\<open>parent\<close> property
  equals \<^verbatim>\<open>parent\<close> when that is true; or the descendants of \<^verbatim>\<open>parent\<close>, of
  \<^verbatim>\<open>UIAElementInfo(None)\<close> when \<^verbatim>\<open>parent\<close> is false.
\<close>

definition initial_elements :: "('e, 'w, 'rx) platform \<Rightarrow> 'e criteria \<Rightarrow> 'e list" where
  "initial_elements env c =
     (if top_level_only c then
        (case element_parent env (parent c) of
           Some p \<Rightarrow> filter (\<lambda>elem. elem_parent env elem = Some p) (enum_elements env)
         | None \<Rightarrow> enum_elements env)
      else
        descendants env
          (case element_parent env (parent c) of
             Some p \<Rightarrow> p
           | None \<Rightarrow> UIAElementInfo env None))"

definition control_id_elements ::
  "('e, 'w, 'rx) platform \<Rightarrow> 'e criteria \<Rightarrow> 'e list \<Rightarrow> 'e list" where
  "control_id_elements env c elements =
     (case control_id c of
        Some cid \<Rightarrow>
          if elements \<noteq> [] then filter (\<lambda>elem. controlId env elem = cid) elements
          else elements
      | None \<Rightarrow> elements)"

text \<open>
  The \<^verbatim>\<open>active_only\<close> step: one call of \<^verbatim>\<open>GetGUIThreadInfo\<close>, then the loop that stops
  at the first element whose handle is \<^verbatim>\<open>hwndActive\<close>.
\<close>

definition active_elements ::
  "('e, 'w, 'rx) platform \<Rightarrow> 'e list \<Rightarrow> nat \<Rightarrow> ('e error + 'e list) \<times> nat" where
  "active_elements env elements queries =
     (case GetGUIThreadInfo env queries of
        None \<Rightarrow> (Inl WinError, Suc queries)
      | Some hwndActive \<Rightarrow>
          (Inr (case find (\<lambda>elem. elem_handle env elem = Some hwndActive) elements of
                  Some elem \<Rightarrow> [elem]
                | None \<Rightarrow> []),
           Suc queries))"

definition class_name_elements ::
  "('e, 'w, 'rx) platform \<Rightarrow> 'e criteria \<Rightarrow> 'e list \<Rightarrow> 'e list" where
  "class_name_elements env c elements =
     (case class_name c of
        Some cn \<Rightarrow> filter (\<lambda>elem. className env elem = cn) elements
      | None \<Rightarrow> elements)"

definition class_name_re_elements ::
  "('e, 'w, 'rx) platform \<Rightarrow> 'e criteria \<Rightarrow> 'e list \<Rightarrow> 'e error + 'e list" where
  "class_name_re_elements env c elements =
     (case class_name_re c of
        Some pat \<Rightarrow>
          (case re_compile env pat of
             None \<Rightarrow> Inl ReError
           | Some class_name_regex \<Rightarrow>
               Inr (filter (\<lambda>elem. re_match env class_name_regex (className env elem))
                      elements))
      | None \<Rightarrow> Inr elements)"

definition process_elements ::
  "('e, 'w, 'rx) platform \<Rightarrow> 'e criteria \<Rightarrow> 'e list \<Rightarrow> 'e list" where
  "process_elements env c elements =
     (case process c of
        Some pid \<Rightarrow> filter (\<lambda>elem. processId env elem = pid) elements
      | None \<Rightarrow> elements)"

definition title_elements ::
  "('e, 'w, 'rx) platform \<Rightarrow> 'e criteria \<Rightarrow> 'e list \<Rightarrow> 'e error + 'e list" where
  "title_elements env c elements =
     (case title c of
        Some t \<Rightarrow> Inr (filter (\<lambda>elem. windowText env elem = Some t) elements)
      | None \<Rightarrow>
          (case title_re c of
             Some pat \<Rightarrow>
               (case re_compile env pat of
                  None \<Rightarrow> Inl ReError
                | Some title_regex \<Rightarrow>
                    Inr (filter (\<lambda>elem. title_match env title_regex (windowText env elem))
                           elements))
           | None \<Rightarrow> Inr elements))"

definition visible_elements ::
  "('e, 'w, 'rx) platform \<Rightarrow> 'e criteria \<Rightarrow> 'e list \<Rightarrow> 'e list" where
  "visible_elements env c elements =
     (if visible_only c then filter (visible env) elements else elements)"

definition enabled_elements ::
  "('e, 'w, 'rx) platform \<Rightarrow> 'e criteria \<Rightarrow> 'e list \<Rightarrow> 'e list" where
  "enabled_elements env c elements =
     (if enabled_only c then filter (enabled env) elements else elements)"

text \<open>
  The \<^verbatim>\<open>best_match\<close> step: an element is wrapped when \<^verbatim>\<open>elem.handle\<close> is true (neither
  \<^verbatim>\<open>None\<close> nor \<open>0\<close>) and \<^verbatim>\<open>WrapElement\<close> does not raise; what the matcher chooses is
  turned into new \<^verbatim>\<open>UIAElementInfo\<close> objects built from the handles. The \<^verbatim>\<open>print\<close> of
  the source is left out.
\<close>

definition wrap_element :: "('e, 'w, 'rx) platform \<Rightarrow> 'e \<Rightarrow> 'w option" where
  "wrap_element env elem =
     (case elem_handle env elem of
        Some h \<Rightarrow> if h \<noteq> 0 then WrapElement env elem else None
      | None \<Rightarrow> None)"

definition best_match_elements ::
  "('e, 'w, 'rx) platform \<Rightarrow> 'e criteria \<Rightarrow> 'e list \<Rightarrow> 'e list" where
  "best_match_elements env c elements =
     (case best_match c of
        Some bm \<Rightarrow>
          map (\<lambda>w. UIAElementInfo env (Some (wrapper_handle env w)))
            (find_best_control_matches env bm (List.map_filter (wrap_element env) elements))
      | None \<Rightarrow> elements)"

definition predicate_elements :: "'e criteria \<Rightarrow> 'e list \<Rightarrow> 'e list" where
  "predicate_elements c elements =
     (case predicate_func c of
        Some f \<Rightarrow> filter (\<lambda>elem. f (PyElement elem)) elements
      | None \<Rightarrow> elements)"

definition filter_elements ::
  "('e, 'w, 'rx) platform \<Rightarrow> 'e criteria \<Rightarrow> 'e list \<Rightarrow> 'e error + 'e list" where
  "filter_elements env c elements =
     (case class_name_re_elements env c (class_name_elements env c elements) of
        Inl err \<Rightarrow> Inl err
      | Inr elements1 \<Rightarrow>
          (case title_elements env c (process_elements env c elements1) of
             Inl err \<Rightarrow> Inl err
           | Inr elements2 \<Rightarrow>
               Inr (predicate_elements c
                      (best_match_elements env c
                         (enabled_elements env c (visible_elements env c elements2))))))"

definition find_elements_rest ::
  "('e, 'w, 'rx) platform \<Rightarrow> 'e criteria \<Rightarrow> 'e list \<Rightarrow> 'e error + 'e list" where
  "find_elements_rest env c elements =
     (if elements = [] then Inr []
      else
        (case filter_elements env c elements of
           Inl err \<Rightarrow> Inl err
         | Inr filtered \<Rightarrow> select_found_index (found_index c) filtered))"

definition narrow_elements ::
  "('e, 'w, 'rx) platform \<Rightarrow> 'e criteria \<Rightarrow> nat \<Rightarrow> ('e error + 'e list) \<times> nat" where
  "narrow_elements env c queries =
     (if active_only c
      then active_elements env (control_id_elements env c (initial_elements env c)) queries
      else (Inr (control_id_elements env c (initial_elements env c)), queries))"

definition find_elements ::
  "('e, 'w, 'rx) platform \<Rightarrow> 'e criteria \<Rightarrow> nat \<Rightarrow> ('e error + 'e list) \<times> nat" where
  "find_elements env c queries =
     (case handle c of
        Some h \<Rightarrow> (Inr [UIAElementInfo env (Some h)], queries)
      | None \<Rightarrow>
          (case (if top_level_only c then None else ctrl_index c) of
             Some i \<Rightarrow>
               (case py_index (initial_elements env c) i of
                  Inl err \<Rightarrow> (Inl err, queries)
                | Inr elem \<Rightarrow> (Inr [elem], queries))
           | None \<Rightarrow>
               (case narrow_elements env c queries of
                  (Inl err, queries') \<Rightarrow> (Inl err, queries')
                | (Inr elements, queries') \<Rightarrow> (find_elements_rest env c elements, queries'))))"

section \<open>The single-result resolver \<^verbatim>\<open>find_window\<close>\<close>

text \<open>
  The message of the ambiguity:
  \<^verbatim>\<open>"There are %d windows that match the criteria %s" % (len(windows), six.text_type(kwargs))\<close>.
\<close>

definition ambiguous_message :: "nat \<Rightarrow> string \<Rightarrow> string" where
  "ambiguous_message n kwargs_text =
     ''There are '' @ str_int (int n) @ '' windows that match the criteria '' @ kwargs_text"

text \<open>
  The first statement of \<^verbatim>\<open>find_window\<close>: the list \<^verbatim>\<open>windows\<close> comes from
  \<^verbatim>\<open>find_elements(**kwargs)\<close> when \<^verbatim>\<open>sysinfo.UIA_support\<close> is true, from
  \<^verbatim>\<open>find_windows(**kwargs)\<close> otherwise.
\<close>

definition delegate_windows ::
  "('e, 'w, 'rx) platform \<Rightarrow> 'e keyword list \<Rightarrow> nat
     \<Rightarrow> ('e error + 'e element_info list) \<times> nat" where
  "delegate_windows env kwargs queries =
     (if UIA_support env
      then (case find_elements env (bind_kwargs kwargs) queries of
              (Inl err, queries') \<Rightarrow> (Inl err, queries')
            | (Inr elements, queries') \<Rightarrow> (Inr (map UIAInfo elements), queries'))
      else find_windows env (bind_kwargs kwargs) queries)"

text \<open>
  The rest of \<^verbatim>\<open>find_window\<close>:
  \<^verbatim>\<open>
  if not windows:
      raise WindowNotFoundError()
  if len(windows) > 1:
      exception = WindowAmbiguousError(...)
      exception.windows = windows
      raise exception
  return windows[0]
  \<close>
\<close>

definition ensure_one :: "string \<Rightarrow> 'e element_info list \<Rightarrow> 'e error + 'e element_info" where
  "ensure_one kwargs_text windows =
     (if windows = [] then Inl (WindowNotFoundError None)
      else if length windows > 1
      then Inl (WindowAmbiguousError (ambiguous_message (length windows) kwargs_text) windows)
      else Inr (hd windows))"

definition find_window ::
  "('e, 'w, 'rx) platform \<Rightarrow> 'e keyword list \<Rightarrow> nat
     \<Rightarrow> ('e error + 'e element_info) \<times> nat" where
  "find_window env kwargs queries =
     (case delegate_windows env kwargs queries of
        (Inl err, queries') \<Rightarrow> (Inl err, queries')
      | (Inr windows, queries') \<Rightarrow> (ensure_one (text_type env kwargs) windows, queries'))"

section \<open>A small desktop\<close>

text \<open>
  A concrete platform to run the pipelines on: three top-level windows \<open>1\<close>, \<open>2\<close>, \<open>3\<close>
  whose parent is the desktop \<open>0\<close>; window \<open>1\<close> has the children \<open>11\<close> and \<open>12\<close>.
  Window \<open>2\<close> is an edit box whose text cannot be read, the other windows are buttons.
  An element object is identified with its handle. Patterns are literal strings, so
  a pattern matches the strings that start with it; the matcher keeps the candidates
  whose text is the string looked for.

  The dictionary of keywords is rendered as Python 3 renders a \<^verbatim>\<open>dict\<close>: the items in
  the order of the call, each as the \<^verbatim>\<open>repr\<close> of the name, a colon and the \<^verbatim>\<open>repr\<close> of
  the value. The \<^verbatim>\<open>repr\<close> of a string is the string between single quotes, which is
  right for the strings without quotes, backslashes and control characters used here;
  an element is shown by its handle and a predicate by a fixed word.
\<close>

definition repr_str :: "string \<Rightarrow> string" where
  "repr_str s = [CHR 0x27] @ s @ [CHR 0x27]"

definition repr_bool :: "bool \<Rightarrow> string" where
  "repr_bool b = (if b then ''True'' else ''False'')"

definition repr_option :: "('a \<Rightarrow> string) \<Rightarrow> 'a option \<Rightarrow> string" where
  "repr_option r v = (case v of None \<Rightarrow> ''None'' | Some x \<Rightarrow> r x)"

fun repr_item :: "int keyword \<Rightarrow> string" where
  "repr_item (Kw_class_name v) = repr_str ''class_name'' @ '': '' @ repr_option repr_str v"
| "repr_item (Kw_class_name_re v) = repr_str ''class_name_re'' @ '': '' @ repr_option repr_str v"
| "repr_item (Kw_parent v) =
     repr_str ''parent'' @ '': ''
       @ repr_option (\<lambda>p. case p of PyInt h \<Rightarrow> str_int h
                                  | PyElement e \<Rightarrow> ''<UIAElementInfo '' @ str_int e @ ''>'') v"
| "repr_item (Kw_process v) = repr_str ''process'' @ '': '' @ repr_option str_int v"
| "repr_item (Kw_title v) = repr_str ''title'' @ '': '' @ repr_option repr_str v"
| "repr_item (Kw_title_re v) = repr_str ''title_re'' @ '': '' @ repr_option repr_str v"
| "repr_item (Kw_top_level_only v) = repr_str ''top_level_only'' @ '': '' @ repr_bool v"
| "repr_item (Kw_visible_only v) = repr_str ''visible_only'' @ '': '' @ repr_bool v"
| "repr_item (Kw_enabled_only v) = repr_str ''enabled_only'' @ '': '' @ repr_bool v"
| "repr_item (Kw_best_match v) = repr_str ''best_match'' @ '': '' @ repr_option repr_str v"
| "repr_item (Kw_handle v) = repr_str ''handle'' @ '': '' @ repr_option str_int v"
| "repr_item (Kw_ctrl_index v) = repr_str ''ctrl_index'' @ '': '' @ repr_option str_int v"
| "repr_item (Kw_found_index v) = repr_str ''found_index'' @ '': '' @ repr_option str_int v"
| "repr_item (Kw_predicate_func v) =
     repr_str ''predicate_func'' @ '': '' @ repr_option (\<lambda>f. ''<function>'') v"
| "repr_item (Kw_active_only v) = repr_str ''active_only'' @ '': '' @ repr_bool v"
| "repr_item (Kw_control_id v) = repr_str ''control_id'' @ '': '' @ repr_option str_int v"

fun join_items :: "string list \<Rightarrow> string" where
  "join_items [] = []"
| "join_items [x] = x"
| "join_items (x # y # ys) = x @ '', '' @ join_items (y # ys)"

definition repr_dict :: "int keyword list \<Rightarrow> string" where
  "repr_dict kwargs = ''{'' @ join_items (map repr_item kwargs) @ ''}''"

definition desktop_classname :: "int \<Rightarrow> string" where
  "desktop_classname h = (if h = 2 then ''Edit'' else ''Button'')"

definition desktop_text :: "int \<Rightarrow> string option" where
  "desktop_text h =
     (if h = 1 then Some ''OK'' else if h = 2 then None else Some ''Cancel'')"

definition desktop_children :: "int \<Rightarrow> int list" where
  "desktop_children h = (if h = 0 then [1, 2, 3] else if h = 1 then [11, 12] else [])"

definition desktop :: "(int, int, string) platform" where
  "desktop =
     \<lparr> UIA_support = False,
       EnumWindows = [1, 2, 3],
       GetDesktopWindow = 0,
       GetGUIThreadInfo = (\<lambda>k. Some 3),
       handleprops_parent = (\<lambda>h. 0),
       handleprops_children = (\<lambda>p. case p of PyInt h \<Rightarrow> desktop_children h | PyElement e \<Rightarrow> []),
       handleprops_controlid = (\<lambda>h. h),
       handleprops_classname = desktop_classname,
       handleprops_processid = (\<lambda>h. 100),
       handleprops_text = desktop_text,
       handleprops_isvisible = (\<lambda>h. True),
       handleprops_isenabled = (\<lambda>h. True),
       UIAElementInfo = (\<lambda>h. case h of Some x \<Rightarrow> x | None \<Rightarrow> 0),
       elem_parent = (\<lambda>e. if e = 0 then None else Some 0),
       descendants = desktop_children,
       controlId = (\<lambda>e. e),
       elem_handle = (\<lambda>e. Some e),
       className = desktop_classname,
       processId = (\<lambda>e. 100),
       windowText = desktop_text,
       visible = (\<lambda>e. True),
       enabled = (\<lambda>e. True),
       WrapHandle = Some,
       WrapElement = Some,
       wrapper_handle = (\<lambda>w. w),
       find_best_control_matches = (\<lambda>bm ws. filter (\<lambda>w. desktop_text w = Some bm) ws),
       re_compile = Some,
       re_match = (\<lambda>rx s. take (length rx) s = rx),
       text_type = repr_dict \<rparr>"

section \<open>Properties\<close>

subsection \<open>Slices and the \<^verbatim>\<open>found_index\<close> step\<close>

lemma take_one_drop: "k < length xs \<Longrightarrow> take (Suc 0) (drop k xs) = [xs ! k]"
  by (simp add: take_Suc_conv_app_nth)

lemma py_slice_at:
  assumes "0 \<le> i" and "i < int (length xs)"
  shows "py_slice xs i (i + 1) = [xs ! nat i]"
proof -
  have "nat i < length xs" using assms by linarith
  then show ?thesis
    using assms by (simp add: py_slice_def Let_def min_def take_one_drop)
qed

lemma py_slice_from_end:
  assumes "2 \<le> k" and "k \<le> length xs"
  shows "py_slice xs (- int k) (- int k + 1) = [xs ! (length xs - k)]"
proof -
  let ?n = "int (length xs)"
  have lo: "max (- int k + ?n) 0 = int (length xs - k)" using assms by linarith
  have hi: "max (- int k + 1 + ?n) 0 = int (length xs - k) + 1" using assms by linarith
  have neg: "- int k < 0" "- int k + 1 < 0" using assms by linarith+
  have "py_slice xs (- int k) (- int k + 1) = take (Suc 0) (drop (length xs - k) xs)"
    unfolding py_slice_def Let_def using neg by (simp only: if_True lo hi) simp
  moreover have "length xs - k < length xs" using assms by linarith
  ultimately show ?thesis by (simp add: take_one_drop)
qed

lemma py_slice_last: "py_slice xs (- 1) 0 = []"
  by (simp add: py_slice_def Let_def)

lemma set_py_slice: "set (py_slice xs a b) \<subseteq> set xs"
proof -
  have "set (take m (drop n xs)) \<subseteq> set xs" for m n
    using set_take_subset set_drop_subset by fastforce
  then show ?thesis by (simp add: py_slice_def Let_def)
qed

lemma select_found_index_beyond:
  "int (length xs) \<le> i \<Longrightarrow>
   select_found_index (Some i) xs =
     Inl (WindowNotFoundError (Some (found_index_message i (length xs))))"
  by (simp add: select_found_index_def)

lemma select_found_index_at:
  "0 \<le> i \<Longrightarrow> i < int (length xs) \<Longrightarrow> select_found_index (Some i) xs = Inr [xs ! nat i]"
  by (simp add: select_found_index_def py_slice_at)

lemma select_found_index_negative:
  "i < 0 \<Longrightarrow> select_found_index (Some i) xs = Inr (py_slice xs i (i + 1))"
  by (simp add: select_found_index_def)

subsection \<open>The pipelines once the short cuts are passed\<close>

lemma find_windows_past_shortcuts:
  assumes "handle c = None" and "top_level_only c \<or> ctrl_index c = None"
    and "narrow_windows env c q = (Inr windows, q')"
  shows "find_windows env c q = (find_windows_rest env c windows, q')"
  using assms by (auto simp: find_windows_def)

lemma find_elements_past_shortcuts:
  assumes "handle c = None" and "top_level_only c \<or> ctrl_index c = None"
    and "narrow_elements env c q = (Inr elements, q')"
  shows "find_elements env c q = (find_elements_rest env c elements, q')"
  using assms by (auto simp: find_elements_def)

subsection \<open>Unfolding the pipelines on a concrete platform\<close>

lemmas shared_steps = enum_windows_def title_match_def

lemmas windows_steps =
  initial_windows_def control_id_windows_def active_windows_def
  class_name_windows_def class_name_re_windows_def process_windows_def title_windows_def
  visible_windows_def enabled_windows_def best_match_windows_def
  predicate_windows_def filter_windows_def find_windows_rest_def narrow_windows_def
  find_windows_def

lemmas elements_steps =
  initial_elements_def enum_elements_def control_id_elements_def
  active_elements_def class_name_elements_def class_name_re_elements_def
  process_elements_def title_elements_def visible_elements_def
  enabled_elements_def wrap_element_def best_match_elements_def predicate_elements_def
  filter_elements_def find_elements_rest_def narrow_elements_def find_elements_def

lemmas resolver_steps = delegate_windows_def ensure_one_def find_window_def ambiguous_message_def

lemmas python_steps =
  py_index_def py_slice_def select_found_index_def found_index_message_def str_int_def
  str_nat.simps

lemmas desktop_steps =
  desktop_def desktop_classname_def desktop_text_def desktop_children_def default_criteria_def
  bind_kwargs_def repr_str_def repr_bool_def repr_option_def repr_dict_def

subsection \<open>The \<^verbatim>\<open>handle\<close> short cut\<close>

text \<open>
  C2: when \<^verbatim>\<open>handle\<close> is given, \<^verbatim>\<open>find_elements\<close> returns the one-element list
  \<^verbatim>\<open>[UIAElementInfo(handle)]\<close> and \<^verbatim>\<open>find_windows\<close> the one-element list
  \<^verbatim>\<open>[NativeElementInfo(handle)]\<close>, without a query of the active window; any two
  criteria records with that handle give the same result, whatever their other fields.
\<close>

theorem handle_short_circuit:
  assumes "handle c = Some h"
  shows "find_elements env c q = (Inr [UIAElementInfo env (Some h)], q)
       \<and> find_windows env c q = (Inr [NativeElementInfo h], q)
       \<and> (\<forall>c'. handle c' = Some h \<longrightarrow>
             find_elements env c' q = find_elements env c q
           \<and> find_windows env c' q = find_windows env c q)"
  using assms by (simp add: find_elements_def find_windows_def)

theorem handle_short_circuit_witness:
  "find_elements desktop
     (default_criteria\<lparr>handle := Some 99, class_name := Some ''Edit'', visible_only := False,
        found_index := Some 5\<rparr>) 0 = (Inr [99], 0)
   \<and> find_windows desktop
     (default_criteria\<lparr>handle := Some 99, class_name := Some ''Edit'', visible_only := False,
        found_index := Some 5\<rparr>) 0 = (Inr [NativeElementInfo 99], 0)"
  using handle_short_circuit [of "default_criteria\<lparr>handle := Some 99,
      class_name := Some ''Edit'', visible_only := False, found_index := Some 5\<rparr>" 99 desktop 0]
  by (simp add: desktop_steps)

subsection \<open>The three outcomes of \<^verbatim>\<open>find_window\<close>\<close>

text \<open>
  C1: \<^verbatim>\<open>find_window\<close> takes its list from \<^verbatim>\<open>find_elements\<close> or \<^verbatim>\<open>find_windows\<close>,
  called with the keywords it was called with. When that list is empty it raises
  \<^verbatim>\<open>WindowNotFoundError\<close>; when it has two or more elements it raises
  \<^verbatim>\<open>WindowAmbiguousError\<close>, whose message is "There are", the number of elements,
  "windows that match the criteria" and the rendering of the keywords, and whose
  \<^verbatim>\<open>windows\<close> is the whole list; when it has exactly one element it returns that
  element.
\<close>

theorem find_window_outcomes:
  assumes "delegate_windows env kwargs q = (Inr windows, q')"
  shows "(UIA_support env \<longrightarrow>
            (\<exists>elements. find_elements env (bind_kwargs kwargs) q = (Inr elements, q')
                      \<and> windows = map UIAInfo elements))
       \<and> (\<not> UIA_support env \<longrightarrow>
            find_windows env (bind_kwargs kwargs) q = (Inr windows, q'))
       \<and> (windows = [] \<longrightarrow> find_window env kwargs q = (Inl (WindowNotFoundError None), q'))
       \<and> (2 \<le> length windows \<longrightarrow>
            find_window env kwargs q =
              (Inl (WindowAmbiguousError
                      (''There are '' @ str_int (int (length windows))
                         @ '' windows that match the criteria '' @ text_type env kwargs)
                      windows), q'))
       \<and> (\<forall>w. windows = [w] \<longrightarrow> find_window env kwargs q = (Inr w, q'))"
proof -
  have uia: "\<exists>elements. find_elements env (bind_kwargs kwargs) q = (Inr elements, q')
               \<and> windows = map UIAInfo elements" if "UIA_support env"
    using assms that
    by (cases "find_elements env (bind_kwargs kwargs) q")
       (auto simp: delegate_windows_def split: sum.splits)
  have native: "find_windows env (bind_kwargs kwargs) q = (Inr windows, q')"
    if "\<not> UIA_support env"
    using assms that by (simp add: delegate_windows_def)
  have fw: "find_window env kwargs q = (ensure_one (text_type env kwargs) windows, q')"
    using assms by (simp add: find_window_def)
  show ?thesis
    using uia native by (auto simp: fw ensure_one_def ambiguous_message_def)
qed

theorem find_window_outcomes_witness:
  "find_window desktop [Kw_class_name (Some ''Static'')] 0
     = (Inl (WindowNotFoundError None), 0)
   \<and> find_window desktop [Kw_class_name (Some ''Button''), Kw_visible_only True] 0
     = (Inl (WindowAmbiguousError
               ''There are 2 windows that match the criteria {'class_name': 'Button', 'visible_only': True}''
               [NativeElementInfo 1, NativeElementInfo 3]), 0)
   \<and> find_window (desktop\<lparr>UIA_support := True\<rparr>) [Kw_visible_only False] 0
     = (Inl (WindowAmbiguousError
               ''There are 3 windows that match the criteria {'visible_only': False}''
               [UIAInfo 1, UIAInfo 2, UIAInfo 3]), 0)
   \<and> find_window (desktop\<lparr>UIA_support := True\<rparr>) [Kw_class_name (Some ''Edit'')] 0
     = (Inr (UIAInfo 2), 0)"
  using
    find_window_outcomes [of desktop "[Kw_class_name (Some ''Static'')]" 0 "[]" 0]
    find_window_outcomes [of desktop "[Kw_class_name (Some ''Button''), Kw_visible_only True]" 0
      "[NativeElementInfo 1, NativeElementInfo 3]" 0]
    find_window_outcomes [of "desktop\<lparr>UIA_support := True\<rparr>" "[Kw_visible_only False]" 0
      "[UIAInfo 1, UIAInfo 2, UIAInfo 3]" 0]
    find_window_outcomes [of "desktop\<lparr>UIA_support := True\<rparr>"
      "[Kw_class_name (Some ''Edit'')]" 0 "[UIAInfo 2]" 0]
  by (simp add: desktop_steps shared_steps windows_steps elements_steps resolver_steps
        python_steps)

subsection \<open>The \<^verbatim>\<open>ctrl_index\<close> short cut\<close>

lemma py_index_beyond: "int (length xs) \<le> i \<Longrightarrow> py_index xs i = Inl IndexError"
  by (simp add: py_index_def)

lemma py_index_before: "i < - int (length xs) \<Longrightarrow> py_index xs i = Inl IndexError"
  by (simp add: py_index_def)

lemma py_index_at: "0 \<le> i \<Longrightarrow> i < int (length xs) \<Longrightarrow> py_index xs i = Inr (xs ! nat i)"
  by (simp add: py_index_def)

text \<open>
  C4: in descendant mode (no \<^verbatim>\<open>handle\<close>, \<^verbatim>\<open>top_level_only\<close> false) with \<^verbatim>\<open>ctrl_index\<close>
  given, the population is the unfiltered list of children or descendants of the parent;
  an index not below its length (or below minus its length) makes both pipelines raise
  \<^verbatim>\<open>IndexError\<close>, which is not \<^verbatim>\<open>WindowNotFoundError\<close>, instead of returning the last
  element; an index from \<open>0\<close> below the length returns exactly the element at that
  position.
\<close>

theorem ctrl_index_lookup:
  fixes env :: "('e, 'w, 'rx) platform"
  assumes "handle c = None" and "\<not> top_level_only c" and "ctrl_index c = Some i"
  shows "initial_windows env c =
           handleprops_children env
             (case parent c of
                Some p \<Rightarrow> if truthy (Some p) then p else PyInt (GetDesktopWindow env)
              | None \<Rightarrow> PyInt (GetDesktopWindow env))
       \<and> initial_elements env c =
           descendants env
             (case element_parent env (parent c) of
                Some p \<Rightarrow> p | None \<Rightarrow> UIAElementInfo env None)
       \<and> (int (length (initial_windows env c)) \<le> i \<longrightarrow>
            find_windows env c q = (Inl IndexError, q))
       \<and> (int (length (initial_elements env c)) \<le> i \<longrightarrow>
            find_elements env c q = (Inl IndexError, q))
       \<and> (i < - int (length (initial_windows env c)) \<longrightarrow>
            find_windows env c q = (Inl IndexError, q))
       \<and> (i < - int (length (initial_elements env c)) \<longrightarrow>
            find_elements env c q = (Inl IndexError, q))
       \<and> (0 \<le> i \<and> i < int (length (initial_windows env c)) \<longrightarrow>
            find_windows env c q = (Inr [NativeElementInfo (initial_windows env c ! nat i)], q))
       \<and> (0 \<le> i \<and> i < int (length (initial_elements env c)) \<longrightarrow>
            find_elements env c q = (Inr [initial_elements env c ! nat i], q))
       \<and> (\<forall>msg. (IndexError :: 'e error) \<noteq> WindowNotFoundError msg)"
proof -
  have w: "find_windows env c q =
      (case py_index (initial_windows env c) i of
         Inl err \<Rightarrow> (Inl err, q) | Inr win \<Rightarrow> (Inr [NativeElementInfo win], q))"
    using assms by (simp add: find_windows_def)
  have e: "find_elements env c q =
      (case py_index (initial_elements env c) i of
         Inl err \<Rightarrow> (Inl err, q) | Inr elem \<Rightarrow> (Inr [elem], q))"
    using assms by (simp add: find_elements_def)
  show ?thesis
    using assms(2)
    by (simp add: w e py_index_beyond py_index_before py_index_at initial_windows_def
        initial_elements_def)
qed

theorem ctrl_index_lookup_witness:
  "find_windows desktop (default_criteria\<lparr>top_level_only := False, ctrl_index := Some 3\<rparr>) 0
     = (Inl IndexError, 0)
   \<and> find_elements desktop (default_criteria\<lparr>top_level_only := False, ctrl_index := Some 3\<rparr>) 0
     = (Inl IndexError, 0)
   \<and> find_windows desktop
       (default_criteria\<lparr>top_level_only := False, parent := Some (PyInt 1),
          ctrl_index := Some 1\<rparr>) 0
     = (Inr [NativeElementInfo 12], 0)
   \<and> find_elements desktop
       (default_criteria\<lparr>top_level_only := False, parent := Some (PyInt 1),
          ctrl_index := Some 1\<rparr>) 0
     = (Inr [12], 0)"
  using
    ctrl_index_lookup [of "default_criteria\<lparr>top_level_only := False, ctrl_index := Some 3\<rparr>"
      3 desktop 0]
    ctrl_index_lookup [of "default_criteria\<lparr>top_level_only := False,
      parent := Some (PyInt 1), ctrl_index := Some 1\<rparr>" 1 desktop 0]
  by (simp add: desktop_steps shared_steps initial_windows_def initial_elements_def)

subsection \<open>\<^verbatim>\<open>title\<close> before \<^verbatim>\<open>title_re\<close>\<close>

text \<open>
  C6: when \<^verbatim>\<open>title\<close> is given, the title step keeps exactly the elements whose text is
  \<^verbatim>\<open>title\<close>, and both pipelines give the result they give for the same criteria without
  \<^verbatim>\<open>title_re\<close>.
\<close>

theorem title_hides_title_re:
  assumes "title c = Some t"
  shows "title_elements env c elements =
           Inr (filter (\<lambda>elem. windowText env elem = Some t) elements)
       \<and> title_windows env c windows =
           Inr (filter (\<lambda>win. Some t = handleprops_text env win) windows)
       \<and> find_elements env c q = find_elements env (c\<lparr>title_re := None\<rparr>) q
       \<and> find_windows env c q = find_windows env (c\<lparr>title_re := None\<rparr>) q"
proof -
  let ?c = "c\<lparr>title_re := None\<rparr>"
  have tw: "title_windows env ?c ws = title_windows env c ws" for ws
    using assms by (simp add: title_windows_def)
  have te: "title_elements env ?c es = title_elements env c es" for es
    using assms by (simp add: title_elements_def)
  have fw: "filter_windows env ?c ws = filter_windows env c ws" for ws
    unfolding filter_windows_def tw
    by (simp add: class_name_windows_def class_name_re_windows_def
        process_windows_def visible_windows_def enabled_windows_def best_match_windows_def
        predicate_windows_def cong: sum.case_cong)
  have fe: "filter_elements env ?c es = filter_elements env c es" for es
    unfolding filter_elements_def te
    by (simp add: class_name_elements_def class_name_re_elements_def
        process_elements_def visible_elements_def enabled_elements_def
        best_match_elements_def predicate_elements_def cong: sum.case_cong)
  have rw: "find_windows_rest env ?c ws = find_windows_rest env c ws" for ws
    unfolding find_windows_rest_def fw by (simp cong: sum.case_cong)
  have re: "find_elements_rest env ?c es = find_elements_rest env c es" for es
    unfolding find_elements_rest_def fe by (simp cong: sum.case_cong)
  have iw: "initial_windows env ?c = initial_windows env c"
    by (simp add: initial_windows_def)
  have ie: "initial_elements env ?c = initial_elements env c"
    by (simp add: initial_elements_def)
  have nw: "narrow_windows env ?c q = narrow_windows env c q"
    by (simp add: narrow_windows_def iw control_id_windows_def)
  have ne: "narrow_elements env ?c q = narrow_elements env c q"
    by (simp add: narrow_elements_def ie control_id_elements_def)
  have "find_windows env ?c q = find_windows env c q"
    unfolding find_windows_def rw iw nw by (simp cong: option.case_cong)
  moreover have "find_elements env ?c q = find_elements env c q"
    unfolding find_elements_def re ie ne by (simp cong: option.case_cong)
  moreover have "title_elements env c elements =
      Inr (filter (\<lambda>elem. windowText env elem = Some t) elements)"
    using assms by (simp add: title_elements_def)
  moreover have "title_windows env c windows =
      Inr (filter (\<lambda>win. Some t = handleprops_text env win) windows)"
    using assms by (simp add: title_windows_def)
  ultimately show ?thesis by simp
qed

theorem title_hides_title_re_witness:
  "find_windows desktop (default_criteria\<lparr>title := Some ''OK'', title_re := Some ''Can''\<rparr>) 0
     = (Inr [NativeElementInfo 1], 0)
   \<and> find_windows desktop (default_criteria\<lparr>title := Some ''OK''\<rparr>) 0
     = (Inr [NativeElementInfo 1], 0)
   \<and> find_elements desktop (default_criteria\<lparr>title := Some ''OK'', title_re := Some ''Can''\<rparr>) 0
     = (Inr [1], 0)"
  using title_hides_title_re [of "default_criteria\<lparr>title := Some ''OK'',
      title_re := Some ''Can''\<rparr>" "''OK''" desktop "[]" "[]" 0]
  by (simp add: desktop_steps shared_steps windows_steps elements_steps python_steps)

subsection \<open>The \<^verbatim>\<open>active_only\<close> step\<close>

lemma active_windows_queries: "snd (active_windows env windows q) = Suc q"
  by (simp add: active_windows_def split: option.splits)

lemma active_elements_queries: "snd (active_elements env elements q) = Suc q"
  by (simp add: active_elements_def split: option.splits)

lemma find_windows_queries:
  assumes "handle c = None" and "top_level_only c \<or> ctrl_index c = None"
  shows "snd (find_windows env c q) = snd (narrow_windows env c q)"
  using assms by (auto simp: find_windows_def split: prod.splits sum.splits)

lemma find_elements_queries:
  assumes "handle c = None" and "top_level_only c \<or> ctrl_index c = None"
  shows "snd (find_elements env c q) = snd (narrow_elements env c q)"
  using assms by (auto simp: find_elements_def split: prod.splits sum.splits)

text \<open>
  C9: with \<^verbatim>\<open>active_only\<close> true (and neither short cut taken), each pipeline calls
  \<^verbatim>\<open>GetGUIThreadInfo\<close> exactly once, whatever the population. When the call succeeds
  with the active handle \<open>a\<close>, the population of \<^verbatim>\<open>find_windows\<close> becomes \<open>[a]\<close> if \<open>a\<close>
  is in it and empty otherwise; the population of \<^verbatim>\<open>find_elements\<close> becomes one of its
  elements whose handle is \<open>a\<close> if there is one and empty otherwise. The pipeline goes
  on with that population.
\<close>

theorem active_only_one_query:
  assumes "handle c = None" and "top_level_only c \<or> ctrl_index c = None"
    and "active_only c"
  shows "snd (find_windows env c q) = Suc q
       \<and> snd (find_elements env c q) = Suc q
       \<and> (\<forall>a. GetGUIThreadInfo env q = Some a \<longrightarrow>
             narrow_windows env c q =
               (Inr (if a \<in> set (control_id_windows env c (initial_windows env c))
                     then [a] else []), Suc q)
           \<and> find_windows env c q =
               (find_windows_rest env c
                  (if a \<in> set (control_id_windows env c (initial_windows env c))
                   then [a] else []), Suc q)
           \<and> ((\<forall>elem \<in> set (control_id_elements env c (initial_elements env c)).
                   elem_handle env elem \<noteq> Some a) \<longrightarrow>
                 narrow_elements env c q = (Inr [], Suc q)
               \<and> find_elements env c q = (find_elements_rest env c [], Suc q))
           \<and> ((\<exists>elem \<in> set (control_id_elements env c (initial_elements env c)).
                   elem_handle env elem = Some a) \<longrightarrow>
                 (\<exists>elem \<in> set (control_id_elements env c (initial_elements env c)).
                    elem_handle env elem = Some a
                  \<and> narrow_elements env c q = (Inr [elem], Suc q)
                  \<and> find_elements env c q = (find_elements_rest env c [elem], Suc q))))"
proof -
  let ?ws = "control_id_windows env c (initial_windows env c)"
  let ?es = "control_id_elements env c (initial_elements env c)"
  have qw: "snd (find_windows env c q) = Suc q"
    using assms by (simp add: find_windows_queries narrow_windows_def active_windows_queries)
  have qe: "snd (find_elements env c q) = Suc q"
    using assms by (simp add: find_elements_queries narrow_elements_def active_elements_queries)
  have after: "narrow_windows env c q = (Inr (if a \<in> set ?ws then [a] else []), Suc q)
      \<and> find_windows env c q =
          (find_windows_rest env c (if a \<in> set ?ws then [a] else []), Suc q)
      \<and> ((\<forall>elem \<in> set ?es. elem_handle env elem \<noteq> Some a) \<longrightarrow>
            narrow_elements env c q = (Inr [], Suc q)
          \<and> find_elements env c q = (find_elements_rest env c [], Suc q))
      \<and> ((\<exists>elem \<in> set ?es. elem_handle env elem = Some a) \<longrightarrow>
            (\<exists>elem \<in> set ?es. elem_handle env elem = Some a
               \<and> narrow_elements env c q = (Inr [elem], Suc q)
               \<and> find_elements env c q = (find_elements_rest env c [elem], Suc q)))"
    if a: "GetGUIThreadInfo env q = Some a" for a
  proof -
    have nw: "narrow_windows env c q = (Inr (if a \<in> set ?ws then [a] else []), Suc q)"
      using assms(3) a by (simp add: narrow_windows_def active_windows_def)
    have ne: "narrow_elements env c q =
        (Inr (case find (\<lambda>elem. elem_handle env elem = Some a) ?es of
                Some elem \<Rightarrow> [elem] | None \<Rightarrow> []), Suc q)"
      using assms(3) a by (simp add: narrow_elements_def active_elements_def)
    have none: "narrow_elements env c q = (Inr [], Suc q)
        \<and> find_elements env c q = (find_elements_rest env c [], Suc q)"
      if "\<forall>elem \<in> set ?es. elem_handle env elem \<noteq> Some a"
    proof -
      have "find (\<lambda>elem. elem_handle env elem = Some a) ?es = None"
        using that by (simp add: find_None_iff)
      then have "narrow_elements env c q = (Inr [], Suc q)" by (simp add: ne)
      then show ?thesis using find_elements_past_shortcuts [OF assms(1,2)] by simp
    qed
    have some: "\<exists>elem \<in> set ?es. elem_handle env elem = Some a
        \<and> narrow_elements env c q = (Inr [elem], Suc q)
        \<and> find_elements env c q = (find_elements_rest env c [elem], Suc q)"
      if "\<exists>elem \<in> set ?es. elem_handle env elem = Some a"
    proof -
      have "find (\<lambda>elem. elem_handle env elem = Some a) ?es \<noteq> None"
        using that by (auto simp: find_None_iff)
      then obtain elem where f: "find (\<lambda>elem. elem_handle env elem = Some a) ?es = Some elem"
        by blast
      then have "elem \<in> set ?es" and "elem_handle env elem = Some a"
        by (auto simp: find_Some_iff)
      moreover have "narrow_elements env c q = (Inr [elem], Suc q)" by (simp add: ne f)
      ultimately show ?thesis using find_elements_past_shortcuts [OF assms(1,2)] by blast
    qed
    show ?thesis
      using nw none some find_windows_past_shortcuts [OF assms(1,2) nw] by blast
  qed
  show ?thesis using qw qe after by blast
qed

theorem active_only_one_query_witness:
  "find_windows desktop (default_criteria\<lparr>active_only := True\<rparr>) 0
     = (Inr [NativeElementInfo 3], 1)
   \<and> find_elements desktop (default_criteria\<lparr>active_only := True\<rparr>) 0 = (Inr [3], 1)
   \<and> find_windows desktop (default_criteria\<lparr>active_only := True, control_id := Some 1\<rparr>) 0
     = (Inr [], 1)"
  using
    active_only_one_query [of "default_criteria\<lparr>active_only := True\<rparr>" desktop 0]
    active_only_one_query [of "default_criteria\<lparr>active_only := True, control_id := Some 1\<rparr>"
      desktop 0]
  by (simp add: desktop_steps shared_steps windows_steps elements_steps python_steps)

subsection \<open>The class-name steps\<close>

text \<open>
  C7, as the code has it: \<^verbatim>\<open>class_name\<close> and \<^verbatim>\<open>class_name_re\<close> are two independent
  \<^verbatim>\<open>if\<close> filters run one after the other. When both are given, an element survives
  only if its class name equals \<^verbatim>\<open>class_name\<close> and matches \<^verbatim>\<open>class_name_re\<close> at its
  start; when one of them is absent the other one alone decides.
\<close>

theorem class_name_steps_both_apply:
  "(class_name c = Some cn \<and> class_name_re c = Some pat \<and> re_compile env pat = Some rx \<longrightarrow>
      class_name_re_windows env c (class_name_windows env c windows) =
        Inr (filter (\<lambda>win. cn = handleprops_classname env win
                          \<and> re_match env rx (handleprops_classname env win)) windows)
    \<and> class_name_re_elements env c (class_name_elements env c elements) =
        Inr (filter (\<lambda>elem. className env elem = cn
                           \<and> re_match env rx (className env elem)) elements))
 \<and> (class_name c = Some cn \<and> class_name_re c = None \<longrightarrow>
      class_name_re_windows env c (class_name_windows env c windows) =
        Inr (filter (\<lambda>win. cn = handleprops_classname env win) windows)
    \<and> class_name_re_elements env c (class_name_elements env c elements) =
        Inr (filter (\<lambda>elem. className env elem = cn) elements))
 \<and> (class_name c = None \<and> class_name_re c = Some pat \<and> re_compile env pat = Some rx \<longrightarrow>
      class_name_re_windows env c (class_name_windows env c windows) =
        Inr (filter (\<lambda>win. re_match env rx (handleprops_classname env win)) windows)
    \<and> class_name_re_elements env c (class_name_elements env c elements) =
        Inr (filter (\<lambda>elem. re_match env rx (className env elem)) elements))"
  by (auto simp: class_name_windows_def class_name_re_windows_def class_name_elements_def
      class_name_re_elements_def conj_commute)

theorem class_name_steps_both_apply_witness:
  "class_name_re_windows desktop
     (default_criteria\<lparr>class_name := Some ''Button'', class_name_re := Some ''But''\<rparr>)
     (class_name_windows desktop
        (default_criteria\<lparr>class_name := Some ''Button'', class_name_re := Some ''But''\<rparr>)
        [1, 2, 3]) = Inr [1, 3]
   \<and> class_name_re_elements desktop
     (default_criteria\<lparr>class_name := None, class_name_re := Some ''Ed''\<rparr>)
     (class_name_elements desktop
        (default_criteria\<lparr>class_name := None, class_name_re := Some ''Ed''\<rparr>)
        [1, 2, 3]) = Inr [2]"
  using
    class_name_steps_both_apply [of
      "default_criteria\<lparr>class_name := Some ''Button'', class_name_re := Some ''But''\<rparr>"
      "''Button''" "''But''" desktop "''But''" "[1, 2, 3]" "[1, 2, 3]"]
    class_name_steps_both_apply [of
      "default_criteria\<lparr>class_name := None, class_name_re := Some ''Ed''\<rparr>"
      "''Button''" "''Ed''" desktop "''Ed''" "[1, 2, 3]" "[1, 2, 3]"]
  by (simp add: desktop_steps)

text \<open>
  On the small desktop the buttons \<open>1\<close> and \<open>3\<close> pass \<^verbatim>\<open>class_name = "Button"\<close>, and
  are then removed by \<^verbatim>\<open>class_name_re = "Edit"\<close>: the exact match alone does not decide.
\<close>

theorem class_name_re_not_ignored:
  "class_name_re_windows desktop
     (default_criteria\<lparr>class_name := Some ''Button'', class_name_re := Some ''Edit''\<rparr>)
     (class_name_windows desktop
        (default_criteria\<lparr>class_name := Some ''Button'', class_name_re := Some ''Edit''\<rparr>)
        [1, 2, 3]) = Inr []
   \<and> filter (\<lambda>win. ''Button'' = handleprops_classname desktop win) [1, 2, 3] = [1, 3]
   \<and> find_windows desktop
       (default_criteria\<lparr>class_name := Some ''Button'', class_name_re := Some ''Edit''\<rparr>) 0
     = (Inr [], 0)
   \<and> find_windows desktop (default_criteria\<lparr>class_name := Some ''Button''\<rparr>) 0
     = (Inr [NativeElementInfo 1, NativeElementInfo 3], 0)
   \<and> find_elements desktop
       (default_criteria\<lparr>class_name := Some ''Button'', class_name_re := Some ''Edit''\<rparr>) 0
     = (Inr [], 0)
   \<and> find_elements desktop (default_criteria\<lparr>class_name := Some ''Button''\<rparr>) 0
     = (Inr [1, 3], 0)"
  by (simp add: desktop_steps shared_steps windows_steps elements_steps python_steps)

subsection \<open>Steps that only remove elements\<close>

lemma select_found_index_subset:
  "select_found_index fi xs = Inr ys \<Longrightarrow> set ys \<subseteq> set xs"
  using set_py_slice [of xs]
  by (auto simp: select_found_index_def split: option.splits if_splits)

lemma class_name_re_windows_subset:
  "class_name_re_windows env c ws = Inr ws' \<Longrightarrow> set ws' \<subseteq> set ws"
  by (auto simp: class_name_re_windows_def split: option.splits)

lemma class_name_re_elements_subset:
  "class_name_re_elements env c es = Inr es' \<Longrightarrow> set es' \<subseteq> set es"
  by (auto simp: class_name_re_elements_def split: option.splits)

lemma title_windows_subset:
  "title_windows env c ws = Inr ws' \<Longrightarrow> set ws' \<subseteq> set ws"
  by (auto simp: title_windows_def split: option.splits)

lemma title_elements_subset:
  "title_elements env c es = Inr es' \<Longrightarrow> set es' \<subseteq> set es"
  by (auto simp: title_elements_def split: option.splits)

lemma late_windows_subset:
  "best_match c = None \<Longrightarrow>
   set (predicate_windows c (best_match_windows env c
          (enabled_windows env c (visible_windows env c ws)))) \<subseteq> set ws"
  by (auto simp: predicate_windows_def best_match_windows_def enabled_windows_def
      visible_windows_def split: option.splits)

lemma late_elements_subset:
  "best_match c = None \<Longrightarrow>
   set (predicate_elements c (best_match_elements env c
          (enabled_elements env c (visible_elements env c es)))) \<subseteq> set es"
  by (auto simp: predicate_elements_def best_match_elements_def enabled_elements_def
      visible_elements_def split: option.splits)

text \<open>The filters as a chain: what passes them has passed the title step.\<close>

lemma filter_windows_chain:
  assumes "filter_windows env c ws = Inr fs"
  obtains ws1 ws2 where
    "class_name_re_windows env c (class_name_windows env c ws) = Inr ws1"
    "title_windows env c (process_windows env c ws1) = Inr ws2"
    "fs = predicate_windows c (best_match_windows env c
            (enabled_windows env c (visible_windows env c ws2)))"
  using assms by (auto simp: filter_windows_def split: sum.splits)

lemma filter_elements_chain:
  assumes "filter_elements env c es = Inr fs"
  obtains es1 es2 where
    "class_name_re_elements env c (class_name_elements env c es) = Inr es1"
    "title_elements env c (process_elements env c es1) = Inr es2"
    "fs = predicate_elements c (best_match_elements env c
            (enabled_elements env c (visible_elements env c es2)))"
  using assms by (auto simp: filter_elements_def split: sum.splits)

lemma find_windows_rest_cases:
  fixes env :: "('e, 'w, 'rx) platform"
  assumes "find_windows_rest env c ws = Inr res"
  shows "(ws = [] \<and> res = [])
       \<or> (\<exists>fs sel. ws \<noteq> [] \<and> filter_windows env c ws = Inr fs
              \<and> select_found_index (found_index c) fs = (Inr sel :: 'e error + int list)
              \<and> res = map NativeElementInfo sel)"
  using assms by (auto simp: find_windows_rest_def split: if_splits sum.splits)

lemma find_elements_rest_cases:
  fixes env :: "('e, 'w, 'rx) platform"
  assumes "find_elements_rest env c es = Inr res"
  shows "(es = [] \<and> res = [])
       \<or> (\<exists>fs. es \<noteq> [] \<and> filter_elements env c es = Inr fs
              \<and> select_found_index (found_index c) fs = (Inr res :: 'e error + 'e list))"
  using assms by (auto simp: find_elements_rest_def split: if_splits sum.splits)

lemma no_ctrl_index_short_cut:
  "top_level_only c \<or> ctrl_index c = None \<Longrightarrow>
   (if top_level_only c then None else ctrl_index c) = None"
  by auto

lemma find_windows_result:
  assumes "handle c = None" and "top_level_only c \<or> ctrl_index c = None"
    and "find_windows env c q = (Inr res, q')"
  shows "\<exists>ws. narrow_windows env c q = (Inr ws, q') \<and> find_windows_rest env c ws = Inr res"
proof (cases "narrow_windows env c q")
  case (Pair r q'')
  with assms show ?thesis
    by (cases r) (simp_all add: find_windows_def no_ctrl_index_short_cut)
qed

lemma find_elements_result:
  assumes "handle c = None" and "top_level_only c \<or> ctrl_index c = None"
    and "find_elements env c q = (Inr res, q')"
  shows "\<exists>es. narrow_elements env c q = (Inr es, q') \<and> find_elements_rest env c es = Inr res"
proof (cases "narrow_elements env c q")
  case (Pair r q'')
  with assms show ?thesis
    by (cases r) (simp_all add: find_elements_def no_ctrl_index_short_cut)
qed

subsection \<open>\<^verbatim>\<open>title_re\<close> and a text that cannot be read\<close>

lemma title_re_windows:
  assumes "title c = None" and "title_re c = Some pat" and "re_compile env pat = Some rx"
  shows "title_windows env c ws =
    Inr (filter (\<lambda>win. title_match env rx (handleprops_text env win)) ws)"
  using assms by (simp add: title_windows_def)

lemma title_re_elements:
  assumes "title c = None" and "title_re c = Some pat" and "re_compile env pat = Some rx"
  shows "title_elements env c es =
    Inr (filter (\<lambda>elem. title_match env rx (windowText env elem)) es)"
  using assms by (simp add: title_elements_def)

text \<open>
  C8: with \<^verbatim>\<open>title_re\<close> given (a pattern that compiles) and \<^verbatim>\<open>title\<close> absent,
  \<^verbatim>\<open>_title_match\<close> is false on an undefined text; the title step raises nothing and
  returns the elements whose text is defined and matches, so an element whose text is
  undefined is never in its result; and no such element is in the result of a
  pipeline that went through the step and did not rebuild its elements in the
  \<^verbatim>\<open>best_match\<close> step.
\<close>

theorem title_re_drops_undefined_text:
  fixes env :: "('e, 'w, 'rx) platform"
  assumes "title c = None" and "title_re c = Some pat" and "re_compile env pat = Some rx"
  shows "\<not> title_match env rx None
       \<and> title_windows env c windows =
           Inr (filter (\<lambda>win. title_match env rx (handleprops_text env win)) windows)
       \<and> title_elements env c elements =
           Inr (filter (\<lambda>elem. title_match env rx (windowText env elem)) elements)
       \<and> (\<forall>win. handleprops_text env win = None \<longrightarrow>
             win \<notin> set (filter (\<lambda>win. title_match env rx (handleprops_text env win)) windows))
       \<and> (\<forall>elem. windowText env elem = None \<longrightarrow>
             elem \<notin> set (filter (\<lambda>elem. title_match env rx (windowText env elem)) elements))
       \<and> (handle c = None \<and> (top_level_only c \<or> ctrl_index c = None) \<and> best_match c = None \<longrightarrow>
            (\<forall>res q' win. find_windows env c q = (Inr res, q') \<and> handleprops_text env win = None
               \<longrightarrow> NativeElementInfo win \<notin> set res)
          \<and> (\<forall>res q' elem. find_elements env c q = (Inr res, q') \<and> windowText env elem = None
               \<longrightarrow> elem \<notin> set res))"
proof -
  have undefined_text: "\<not> title_match env rx None"
    by (simp add: title_match_def)
  have in_windows: "NativeElementInfo win \<notin> set res"
    if short: "handle c = None" "top_level_only c \<or> ctrl_index c = None"
      and bm: "best_match c = None"
      and res: "find_windows env c q = (Inr res, q')"
      and win: "handleprops_text env win = None" for res q' win
  proof -
    obtain ws where rest: "find_windows_rest env c ws = Inr res"
      using find_windows_result [OF short res] by blast
    from find_windows_rest_cases [OF rest] show ?thesis
    proof (elim disjE exE conjE)
      assume "res = []"
      then show ?thesis by simp
    next
      fix fs sel
      assume 2: "ws \<noteq> []" "filter_windows env c ws = Inr fs"
        "select_found_index (found_index c) fs = (Inr sel :: 'e error + int list)"
        "res = map NativeElementInfo sel"
      from 2(2) obtain ws1 ws2 where
        t: "title_windows env c (process_windows env c ws1) = Inr ws2" and
        fs: "fs = predicate_windows c (best_match_windows env c
                    (enabled_windows env c (visible_windows env c ws2)))"
        by (rule filter_windows_chain)
      have "set sel \<subseteq> set fs" using 2(3) by (rule select_found_index_subset)
      also have "set fs \<subseteq> set ws2" unfolding fs using bm by (rule late_windows_subset)
      finally have "set sel \<subseteq> set ws2" .
      moreover have "win \<notin> set ws2"
        using t win undefined_text by (auto simp: title_re_windows [OF assms])
      ultimately show ?thesis using 2(4) by auto
    qed
  qed
  have in_elements: "elem \<notin> set res"
    if short: "handle c = None" "top_level_only c \<or> ctrl_index c = None"
      and bm: "best_match c = None"
      and res: "find_elements env c q = (Inr res, q')"
      and elem: "windowText env elem = None" for res q' elem
  proof -
    obtain es where rest: "find_elements_rest env c es = Inr res"
      using find_elements_result [OF short res] by blast
    from find_elements_rest_cases [OF rest] show ?thesis
    proof (elim disjE exE conjE)
      assume "res = []"
      then show ?thesis by simp
    next
      fix fs
      assume 2: "es \<noteq> []" "filter_elements env c es = Inr fs"
        "select_found_index (found_index c) fs = (Inr res :: 'e error + 'e list)"
      from 2(2) obtain es1 es2 where
        t: "title_elements env c (process_elements env c es1) = Inr es2" and
        fs: "fs = predicate_elements c (best_match_elements env c
                    (enabled_elements env c (visible_elements env c es2)))"
        by (rule filter_elements_chain)
      have "set res \<subseteq> set fs" using 2(3) by (rule select_found_index_subset)
      also have "set fs \<subseteq> set es2" unfolding fs using bm by (rule late_elements_subset)
      finally have "set res \<subseteq> set es2" .
      moreover have "elem \<notin> set es2"
        using t elem undefined_text by (auto simp: title_re_elements [OF assms])
      ultimately show ?thesis by auto
    qed
  qed
  show ?thesis
    using undefined_text in_windows in_elements
    by (simp add: title_re_windows [OF assms] title_re_elements [OF assms])
qed

theorem title_re_drops_undefined_text_witness:
  "desktop_text 2 = None
   \<and> title_windows desktop (default_criteria\<lparr>title_re := Some ''''\<rparr>) [1, 2, 3] = Inr [1, 3]
   \<and> title_elements desktop (default_criteria\<lparr>title_re := Some ''''\<rparr>) [1, 2, 3] = Inr [1, 3]
   \<and> find_windows desktop (default_criteria\<lparr>title_re := Some ''''\<rparr>) 0
     = (Inr [NativeElementInfo 1, NativeElementInfo 3], 0)
   \<and> find_elements desktop (default_criteria\<lparr>title_re := Some ''''\<rparr>) 0 = (Inr [1, 3], 0)"
  using title_re_drops_undefined_text [of "default_criteria\<lparr>title_re := Some ''''\<rparr>" "''''"
      desktop "''''" "[1, 2, 3]" "[1, 2, 3]" 0]
  by (simp add: desktop_steps shared_steps windows_steps elements_steps python_steps)

subsection \<open>The \<^verbatim>\<open>found_index\<close> step in the pipelines\<close>

lemma find_windows_found_index:
  fixes env :: "('e, 'w, 'rx) platform"
  assumes "handle c = None" and "top_level_only c \<or> ctrl_index c = None"
    and "narrow_windows env c q = (Inr windows, q')" and "windows \<noteq> []"
    and "filter_windows env c windows = Inr filtered"
  shows "find_windows env c q =
    (case (select_found_index (found_index c) filtered :: 'e error + int list) of
       Inl err \<Rightarrow> Inl err
     | Inr selected \<Rightarrow> Inr (map NativeElementInfo selected), q')"
  using assms(4,5) find_windows_past_shortcuts [OF assms(1-3)]
  by (simp add: find_windows_rest_def)

lemma find_elements_found_index:
  fixes env :: "('e, 'w, 'rx) platform"
  assumes "handle c = None" and "top_level_only c \<or> ctrl_index c = None"
    and "narrow_elements env c q = (Inr elements, q')" and "elements \<noteq> []"
    and "filter_elements env c elements = Inr filtered"
  shows "find_elements env c q = (select_found_index (found_index c) filtered, q')"
  using assms(4,5) find_elements_past_shortcuts [OF assms(1-3)]
  by (simp add: find_elements_rest_def)

lemma find_windows_early_stop:
  assumes "handle c = None" and "top_level_only c \<or> ctrl_index c = None"
    and "narrow_windows env c q = (Inr [], q')"
  shows "find_windows env c q = (Inr [], q')"
  using find_windows_past_shortcuts [OF assms] by (simp add: find_windows_rest_def)

lemma find_elements_early_stop:
  assumes "handle c = None" and "top_level_only c \<or> ctrl_index c = None"
    and "narrow_elements env c q = (Inr [], q')"
  shows "find_elements env c q = (Inr [], q')"
  using find_elements_past_shortcuts [OF assms] by (simp add: find_elements_rest_def)

text \<open>
  C3, as the code has it: take \<^verbatim>\<open>found_index = i\<close>, no \<^verbatim>\<open>handle\<close> and no
  \<^verbatim>\<open>ctrl_index\<close> short cut. If the population is empty after the \<^verbatim>\<open>control_id\<close> and
  \<^verbatim>\<open>active_only\<close> steps, the pipeline returns the empty list and raises nothing. If it
  is not empty and the later filters leave \<open>n\<close> elements, then \<open>i \<ge> n\<close> raises
  \<^verbatim>\<open>WindowNotFoundError\<close> with the message naming \<open>i\<close> and \<open>n\<close>, and \<open>0 \<le> i < n\<close> returns
  exactly the element at position \<open>i\<close> of the filtered sequence.
\<close>

theorem found_index_selects:
  fixes env :: "('e, 'w, 'rx) platform"
  assumes "handle c = None" and "top_level_only c \<or> ctrl_index c = None"
    and "found_index c = Some i"
  shows "(\<forall>q'. narrow_windows env c q = (Inr [], q') \<longrightarrow> find_windows env c q = (Inr [], q'))
       \<and> (\<forall>q'. narrow_elements env c q = (Inr [], q') \<longrightarrow> find_elements env c q = (Inr [], q'))
       \<and> (\<forall>windows q' filtered.
            narrow_windows env c q = (Inr windows, q') \<and> windows \<noteq> []
            \<and> filter_windows env c windows = Inr filtered \<longrightarrow>
              (int (length filtered) \<le> i \<longrightarrow>
                 find_windows env c q =
                   (Inl (WindowNotFoundError
                           (Some (''found_index is specified as '' @ str_int i @ '', but ''
                                    @ str_int (int (length filtered))
                                    @ '' window/s found''))), q'))
            \<and> (0 \<le> i \<and> i < int (length filtered) \<longrightarrow>
                 find_windows env c q = (Inr [NativeElementInfo (filtered ! nat i)], q')))
       \<and> (\<forall>elements q' filtered.
            narrow_elements env c q = (Inr elements, q') \<and> elements \<noteq> []
            \<and> filter_elements env c elements = Inr filtered \<longrightarrow>
              (int (length filtered) \<le> i \<longrightarrow>
                 find_elements env c q =
                   (Inl (WindowNotFoundError
                           (Some (''found_index is specified as '' @ str_int i @ '', but ''
                                    @ str_int (int (length filtered))
                                    @ '' window/s found''))), q'))
            \<and> (0 \<le> i \<and> i < int (length filtered) \<longrightarrow>
                 find_elements env c q = (Inr [filtered ! nat i], q')))"
proof -
  note short = assms(1,2)
  have w: "(int (length filtered) \<le> i \<longrightarrow>
              find_windows env c q =
                (Inl (WindowNotFoundError
                        (Some (''found_index is specified as '' @ str_int i @ '', but ''
                                 @ str_int (int (length filtered))
                                 @ '' window/s found''))), q'))
         \<and> (0 \<le> i \<and> i < int (length filtered) \<longrightarrow>
              find_windows env c q = (Inr [NativeElementInfo (filtered ! nat i)], q'))"
    if "narrow_windows env c q = (Inr windows, q')" "windows \<noteq> []"
      "filter_windows env c windows = Inr filtered" for windows q' filtered
    using find_windows_found_index [OF short that] assms(3)
    by (simp add: select_found_index_beyond select_found_index_at found_index_message_def)
  have e: "(int (length filtered) \<le> i \<longrightarrow>
              find_elements env c q =
                (Inl (WindowNotFoundError
                        (Some (''found_index is specified as '' @ str_int i @ '', but ''
                                 @ str_int (int (length filtered))
                                 @ '' window/s found''))), q'))
         \<and> (0 \<le> i \<and> i < int (length filtered) \<longrightarrow>
              find_elements env c q = (Inr [filtered ! nat i], q'))"
    if "narrow_elements env c q = (Inr elements, q')" "elements \<noteq> []"
      "filter_elements env c elements = Inr filtered" for elements q' filtered
    using find_elements_found_index [OF short that] assms(3)
    by (simp add: select_found_index_beyond select_found_index_at found_index_message_def)
  show ?thesis
    using w e find_windows_early_stop [OF short] find_elements_early_stop [OF short]
    by blast
qed

theorem found_index_selects_witness:
  "find_windows desktop (default_criteria\<lparr>class_name := Some ''Button'', found_index := Some 5\<rparr>) 0
     = (Inl (WindowNotFoundError (Some ''found_index is specified as 5, but 2 window/s found'')), 0)
   \<and> find_elements desktop
       (default_criteria\<lparr>class_name := Some ''Button'', found_index := Some 5\<rparr>) 0
     = (Inl (WindowNotFoundError (Some ''found_index is specified as 5, but 2 window/s found'')), 0)
   \<and> find_windows desktop (default_criteria\<lparr>found_index := Some 12\<rparr>) 0
     = (Inl (WindowNotFoundError (Some ''found_index is specified as 12, but 3 window/s found'')), 0)
   \<and> find_windows desktop (default_criteria\<lparr>class_name := Some ''Button'', found_index := Some 1\<rparr>) 0
     = (Inr [NativeElementInfo 3], 0)
   \<and> find_elements desktop
       (default_criteria\<lparr>class_name := Some ''Button'', found_index := Some 1\<rparr>) 0
     = (Inr [3], 0)"
  using
    found_index_selects [of
      "default_criteria\<lparr>class_name := Some ''Button'', found_index := Some 5\<rparr>" 5 desktop 0]
    found_index_selects [of "default_criteria\<lparr>found_index := Some 12\<rparr>" 12 desktop 0]
    found_index_selects [of
      "default_criteria\<lparr>class_name := Some ''Button'', found_index := Some 1\<rparr>" 1 desktop 0]
  by (simp add: desktop_steps shared_steps windows_steps elements_steps python_steps)

text \<open>
  On the small desktop no window has the control id \<open>77\<close>: the population is empty
  before the early stop, \<^verbatim>\<open>found_index = 0\<close> is not below the count \<open>0\<close>, and both
  pipelines return the empty list instead of raising.
\<close>

theorem found_index_after_early_stop:
  "narrow_windows desktop (default_criteria\<lparr>control_id := Some 77, found_index := Some 0\<rparr>) 0
     = (Inr [], 0)
   \<and> filter_windows desktop (default_criteria\<lparr>control_id := Some 77, found_index := Some 0\<rparr>) []
     = Inr []
   \<and> find_windows desktop (default_criteria\<lparr>control_id := Some 77, found_index := Some 0\<rparr>) 0
     = (Inr [], 0)
   \<and> find_elements desktop (default_criteria\<lparr>control_id := Some 77, found_index := Some 0\<rparr>) 0
     = (Inr [], 0)"
  by (simp add: desktop_steps shared_steps windows_steps elements_steps python_steps)

lemma py_slice_from_end_normal:
  assumes "2 \<le> k" and "k \<le> length xs"
  shows "py_slice xs (- int k) (1 - int k) = [xs ! (length xs - k)]"
proof -
  have "(1::int) - int k = - int k + 1" by simp
  then show ?thesis using py_slice_from_end [OF assms] by simp
qed

text \<open>
  C10, as the code has it: a negative \<^verbatim>\<open>found_index\<close> passes the guard
  \<^verbatim>\<open>found_index < len(elements)\<close>, so on a non-empty population neither pipeline
  raises \<^verbatim>\<open>WindowNotFoundError\<close> for it. For \<^verbatim>\<open>found_index = -k\<close> with \<open>2 \<le> k \<le> n\<close>,
  \<open>n\<close> the length of the filtered sequence, the result is the one element at position
  \<open>n - k\<close>, that is the \<open>k\<close>-th from the end.
\<close>

theorem negative_found_index:
  fixes env :: "('e, 'w, 'rx) platform"
  assumes "handle c = None" and "top_level_only c \<or> ctrl_index c = None"
    and "found_index c = Some i" and "i < 0"
  shows "(\<forall>windows q' filtered.
            narrow_windows env c q = (Inr windows, q') \<and> windows \<noteq> []
            \<and> filter_windows env c windows = Inr filtered \<longrightarrow>
              (\<exists>selected. find_windows env c q = (Inr selected, q'))
            \<and> (\<forall>k. i = - int k \<and> 2 \<le> k \<and> k \<le> length filtered \<longrightarrow>
                 find_windows env c q =
                   (Inr [NativeElementInfo (filtered ! (length filtered - k))], q')))
       \<and> (\<forall>elements q' filtered.
            narrow_elements env c q = (Inr elements, q') \<and> elements \<noteq> []
            \<and> filter_elements env c elements = Inr filtered \<longrightarrow>
              (\<exists>selected. find_elements env c q = (Inr selected, q'))
            \<and> (\<forall>k. i = - int k \<and> 2 \<le> k \<and> k \<le> length filtered \<longrightarrow>
                 find_elements env c q = (Inr [filtered ! (length filtered - k)], q')))"
proof -
  note short = assms(1,2)
  have w: "(\<exists>selected. find_windows env c q = (Inr selected, q'))
         \<and> (\<forall>k. i = - int k \<and> 2 \<le> k \<and> k \<le> length filtered \<longrightarrow>
              find_windows env c q =
                (Inr [NativeElementInfo (filtered ! (length filtered - k))], q'))"
    if "narrow_windows env c q = (Inr windows, q')" "windows \<noteq> []"
      "filter_windows env c windows = Inr filtered" for windows q' filtered
    using find_windows_found_index [OF short that] assms(3,4)
    by (auto simp: select_found_index_negative py_slice_from_end_normal)
  have e: "(\<exists>selected. find_elements env c q = (Inr selected, q'))
         \<and> (\<forall>k. i = - int k \<and> 2 \<le> k \<and> k \<le> length filtered \<longrightarrow>
              find_elements env c q = (Inr [filtered ! (length filtered - k)], q'))"
    if "narrow_elements env c q = (Inr elements, q')" "elements \<noteq> []"
      "filter_elements env c elements = Inr filtered" for elements q' filtered
    using find_elements_found_index [OF short that] assms(3,4)
    by (auto simp: select_found_index_negative py_slice_from_end_normal)
  show ?thesis using w e by blast
qed

theorem negative_found_index_witness:
  "find_windows desktop (default_criteria\<lparr>found_index := Some (- 2)\<rparr>) 0
     = (Inr [NativeElementInfo 2], 0)
   \<and> find_elements desktop (default_criteria\<lparr>found_index := Some (- 3)\<rparr>) 0 = (Inr [1], 0)"
  using
    negative_found_index [of "default_criteria\<lparr>found_index := Some (- 2)\<rparr>" "- 2" desktop 0]
    negative_found_index [of "default_criteria\<lparr>found_index := Some (- 3)\<rparr>" "- 3" desktop 0]
  by (simp add: desktop_steps shared_steps windows_steps elements_steps python_steps)

text \<open>
  On the small desktop three windows pass the filters, and \<^verbatim>\<open>found_index = -1\<close> selects
  the slice \<^verbatim>\<open>windows[-1:0]\<close>, which is empty, not the last window.
\<close>

theorem found_index_minus_one_is_empty:
  "filter_windows desktop (default_criteria\<lparr>found_index := Some (- 1)\<rparr>) [1, 2, 3]
     = Inr [1, 2, 3]
   \<and> find_windows desktop (default_criteria\<lparr>found_index := Some (- 1)\<rparr>) 0 = (Inr [], 0)
   \<and> filter_elements desktop (default_criteria\<lparr>found_index := Some (- 1)\<rparr>) [1, 2, 3]
     = Inr [1, 2, 3]
   \<and> find_elements desktop (default_criteria\<lparr>found_index := Some (- 1)\<rparr>) 0 = (Inr [], 0)"
  by (simp add: desktop_steps shared_steps windows_steps elements_steps python_steps)

subsection \<open>The result and the initial population\<close>

lemma py_index_member: "py_index xs i = Inr x \<Longrightarrow> x \<in> set xs"
  by (auto simp: py_index_def split: if_splits)

lemma narrow_elements_subset:
  assumes "narrow_elements env c q = (Inr es, q')"
  shows "set es \<subseteq> set (initial_elements env c)"
proof -
  have cid: "set (control_id_elements env c (initial_elements env c))
      \<subseteq> set (initial_elements env c)"
    by (auto simp: control_id_elements_def split: option.splits)
  have "set es \<subseteq> set (control_id_elements env c (initial_elements env c))"
    using assms
    by (auto simp: narrow_elements_def active_elements_def find_Some_iff
        split: if_splits option.splits)
  then show ?thesis using cid by blast
qed

lemma best_match_elements_subset:
  assumes "best_match c = None
     \<or> ((\<forall>bm ws. set (find_best_control_matches env bm ws) \<subseteq> set ws)
        \<and> (\<forall>elem w. wrap_element env elem = Some w \<longrightarrow>
               UIAElementInfo env (Some (wrapper_handle env w)) = elem))"
  shows "set (best_match_elements env c es) \<subseteq> set es"
proof (cases "best_match c")
  case None
  then show ?thesis by (simp add: best_match_elements_def)
next
  case (Some bm)
  with assms have sub: "set (find_best_control_matches env bm ws) \<subseteq> set ws"
    and rebuilt: "wrap_element env elem = Some w \<Longrightarrow>
        UIAElementInfo env (Some (wrapper_handle env w)) = elem" for ws elem w
    by auto
  show ?thesis
  proof
    fix x
    assume "x \<in> set (best_match_elements env c es)"
    then obtain w where
      w: "w \<in> set (find_best_control_matches env bm (List.map_filter (wrap_element env) es))"
      and x: "x = UIAElementInfo env (Some (wrapper_handle env w))"
      using Some by (auto simp: best_match_elements_def)
    from w sub have "w \<in> set (List.map_filter (wrap_element env) es)" by blast
    then obtain elem where "elem \<in> set es" and "wrap_element env elem = Some w"
      by (auto simp: map_filter_def)
    then show "x \<in> set es" using rebuilt x by simp
  qed
qed

lemma filter_elements_subset:
  assumes "best_match c = None
     \<or> ((\<forall>bm ws. set (find_best_control_matches env bm ws) \<subseteq> set ws)
        \<and> (\<forall>elem w. wrap_element env elem = Some w \<longrightarrow>
               UIAElementInfo env (Some (wrapper_handle env w)) = elem))"
    and "filter_elements env c es = Inr fs"
  shows "set fs \<subseteq> set es"
proof -
  from assms(2) obtain es1 es2 where
    cn: "class_name_re_elements env c (class_name_elements env c es) = Inr es1" and
    t: "title_elements env c (process_elements env c es1) = Inr es2" and
    fs: "fs = predicate_elements c (best_match_elements env c
               (enabled_elements env c (visible_elements env c es2)))"
    by (rule filter_elements_chain)
  have "set fs \<subseteq> set (best_match_elements env c
               (enabled_elements env c (visible_elements env c es2)))"
    unfolding fs by (auto simp: predicate_elements_def split: option.splits)
  also have "\<dots> \<subseteq> set (enabled_elements env c (visible_elements env c es2))"
    using assms(1) by (rule best_match_elements_subset)
  also have "\<dots> \<subseteq> set es2"
    by (auto simp: enabled_elements_def visible_elements_def)
  also have "\<dots> \<subseteq> set (process_elements env c es1)"
    using t by (rule title_elements_subset)
  also have "\<dots> \<subseteq> set es1"
    by (auto simp: process_elements_def split: option.splits)
  also have "\<dots> \<subseteq> set (class_name_elements env c es)"
    using cn by (rule class_name_re_elements_subset)
  also have "\<dots> \<subseteq> set es"
    by (auto simp: class_name_elements_def split: option.splits)
  finally show ?thesis .
qed

text \<open>
  C5, as the code has it: when \<^verbatim>\<open>handle\<close> is not given, and \<^verbatim>\<open>best_match\<close> is not given
  or the matcher returns only wrappers it was handed and the \<^verbatim>\<open>UIAElementInfo\<close> built
  from the handle of an element's wrapper is that element, every element of a result of
  \<^verbatim>\<open>find_elements\<close> is a member of the initial population (all top-level elements, or
  all descendants of the parent).
\<close>

theorem find_elements_within_population:
  fixes env :: "('e, 'w, 'rx) platform"
  assumes "handle c = None"
    and "best_match c = None
     \<or> ((\<forall>bm ws. set (find_best_control_matches env bm ws) \<subseteq> set ws)
        \<and> (\<forall>elem w. wrap_element env elem = Some w \<longrightarrow>
               UIAElementInfo env (Some (wrapper_handle env w)) = elem))"
    and "find_elements env c q = (Inr result, q')"
  shows "set result \<subseteq> set (initial_elements env c)"
proof (cases "top_level_only c \<or> ctrl_index c = None")
  case True
  obtain es where n: "narrow_elements env c q = (Inr es, q')"
    and rest: "find_elements_rest env c es = Inr result"
    using find_elements_result [OF assms(1) True assms(3)] by blast
  have es: "set es \<subseteq> set (initial_elements env c)"
    using n by (rule narrow_elements_subset)
  from find_elements_rest_cases [OF rest] show ?thesis
  proof (elim disjE exE conjE)
    assume "result = []"
    then show ?thesis by simp
  next
    fix fs
    assume "filter_elements env c es = Inr fs"
      and sel: "select_found_index (found_index c) fs = (Inr result :: 'e error + 'e list)"
    then have "set fs \<subseteq> set es" using assms(2) filter_elements_subset by blast
    moreover have "set result \<subseteq> set fs" using sel by (rule select_found_index_subset)
    ultimately show ?thesis using es by blast
  qed
next
  case False
  then obtain i where i: "\<not> top_level_only c" "ctrl_index c = Some i" by auto
  have "find_elements env c q =
      (case py_index (initial_elements env c) i of
         Inl err \<Rightarrow> (Inl err, q) | Inr elem \<Rightarrow> (Inr [elem], q))"
    using assms(1) i by (simp add: find_elements_def)
  with assms(3) obtain elem where
    "(py_index (initial_elements env c) i :: 'e error + 'e) = Inr elem" and "result = [elem]"
    by (auto split: sum.splits)
  then show ?thesis using py_index_member by fastforce
qed

theorem find_elements_within_population_witness:
  "find_elements desktop
     (default_criteria\<lparr>top_level_only := False, parent := Some (PyInt 1),
        best_match := Some ''Cancel'', found_index := Some 1\<rparr>) 0 = (Inr [12], 0)
   \<and> initial_elements desktop
     (default_criteria\<lparr>top_level_only := False, parent := Some (PyInt 1),
        best_match := Some ''Cancel'', found_index := Some 1\<rparr>) = [11, 12]
   \<and> set [12] \<subseteq> set (initial_elements desktop
     (default_criteria\<lparr>top_level_only := False, parent := Some (PyInt 1),
        best_match := Some ''Cancel'', found_index := Some 1\<rparr>))"
proof -
  let ?c = "default_criteria\<lparr>top_level_only := False, parent := Some (PyInt 1),
        best_match := Some ''Cancel'', found_index := Some 1\<rparr> :: int criteria"
  have r: "find_elements desktop ?c 0 = (Inr [12], 0)"
    by (simp add: desktop_steps shared_steps elements_steps python_steps map_filter_def)
  have p: "initial_elements desktop ?c = [11, 12]"
    by (simp add: desktop_steps initial_elements_def)
  have h: "handle ?c = None" by (simp add: default_criteria_def)
  have m: "best_match ?c = None
     \<or> ((\<forall>bm ws. set (find_best_control_matches desktop bm ws) \<subseteq> set ws)
        \<and> (\<forall>elem w. wrap_element desktop elem = Some w \<longrightarrow>
               UIAElementInfo desktop (Some (wrapper_handle desktop w)) = elem))"
    by (auto simp: desktop_def wrap_element_def)
  from find_elements_within_population [OF h m r] r p show ?thesis by simp
qed

text \<open>
  On the small desktop the top-level population is \<open>[1, 2, 3]\<close>, and \<^verbatim>\<open>handle = 99\<close>
  returns the element of handle \<open>99\<close>, which is not in it.
\<close>

theorem handle_outside_population:
  "find_elements desktop (default_criteria\<lparr>handle := Some 99\<rparr>) 0 = (Inr [99], 0)
   \<and> initial_elements desktop (default_criteria\<lparr>handle := Some 99\<rparr>) = [1, 2, 3]
   \<and> 99 \<notin> set (initial_elements desktop (default_criteria\<lparr>handle := Some 99\<rparr>))"
  by (simp add: desktop_steps shared_steps elements_steps)

end
